theory Spec2Isabelle
  imports Main "HOL-Library.Word"
begin

section \<open>JavaScript values\<close>

text \<open>
  The handlers of \<^verbatim>\<open>src/index.ts\<close> and \<^verbatim>\<open>src/standalone.ts\<close> receive their
  arguments and every upstream reply as untyped JSON (\<^verbatim>\<open>args: any\<close>,
  \<^verbatim>\<open>data as any\<close>). A value is therefore one of the JSON shapes, plus
  \<^verbatim>\<open>undefined\<close> for an absent property. A number is an integer from \<open>- 2^53\<close> to
  \<open>2^53 - 1\<close>, the range in which a double holds every integer exactly and prints all
  its digits: a 54-bit word read as a signed value. Fractions and larger numbers are
  outside this model. Strings are byte strings (a character outside ASCII is its UTF-8
  bytes).
\<close>

datatype jsval =
    JUndefined
  | JNull
  | JBool bool
  | JNum "54 word"
  | JStr string
  | JArr "jsval list"
  | JObj "(string \<times> jsval) list"

text \<open>
  A thrown value. \<open>Exn name message\<close> is an instance of \<^verbatim>\<open>Error\<close>: the name is
  \<^verbatim>\<open>Error\<close> for every \<^verbatim>\<open>throw new Error(...)\<close> written in the source, and
  \<^verbatim>\<open>TypeError\<close>, \<^verbatim>\<open>SyntaxError\<close>, ... for what the runtime or a library raises.
  \<open>Thrown v\<close> is a rejection with a value that is no \<^verbatim>\<open>Error\<close> instance.
\<close>

datatype js_error = Exn string string | Thrown jsval

text \<open>Truthiness, as \<^verbatim>\<open>if (x)\<close>, \<^verbatim>\<open>!x\<close> and \<^verbatim>\<open>x || y\<close> test it.\<close>

fun truthy :: "jsval \<Rightarrow> bool" where
  "truthy JUndefined = False"
| "truthy JNull = False"
| "truthy (JBool b) = b"
| "truthy (JNum n) = (n \<noteq> 0)"
| "truthy (JStr s) = (s \<noteq> [])"
| "truthy (JArr xs) = True"
| "truthy (JObj kvs) = True"

text \<open>\<^verbatim>\<open>a || b\<close>\<close>

definition js_or :: "jsval \<Rightarrow> jsval \<Rightarrow> jsval" where
  "js_or a b = (if truthy a then a else b)"

text \<open>Decimal digits of a number, as a template literal prints an integer.\<close>

fun digits :: "nat \<Rightarrow> string" where
  "digits n = (if n < 10 then [char_of (48 + n)] else digits (n div 10) @ [char_of (48 + n mod 10)])"

declare digits.simps [simp del]

definition show_int :: "int \<Rightarrow> string" where
  "show_int i = (if i < 0 then CHR ''-'' # digits (nat (- i)) else digits (nat i))"

fun join :: "string \<Rightarrow> string list \<Rightarrow> string" where
  "join sep [] = []"
| "join sep [x] = x"
| "join sep (x # y # ys) = x @ sep @ join sep (y # ys)"

text \<open>
  \<^verbatim>\<open>String(v)\<close>, which is also what \<^verbatim>\<open>${v}\<close> in a template literal,
  \<^verbatim>\<open>new Error(v)\<close> and \<^verbatim>\<open>formData.append(k, v)\<close> apply. An array joins its elements
  with commas, printing \<^verbatim>\<open>null\<close> and \<^verbatim>\<open>undefined\<close> elements as the empty string. An
  object prints as \<^verbatim>\<open>[object Object]\<close> through the \<^verbatim>\<open>toString\<close> it inherits; an object
  parsed from JSON that has a property named \<^verbatim>\<open>toString\<close> of its own hides that
  method behind a value that cannot be called, and the conversion throws a TypeError.
\<close>

definition cannot_convert :: js_error where
  "cannot_convert = Exn ''TypeError'' ''Cannot convert object to primitive value''"

fun js_String :: "jsval \<Rightarrow> js_error + string"
  and js_join :: "jsval list \<Rightarrow> js_error + string list" where
  "js_String JUndefined = Inr ''undefined''"
| "js_String JNull = Inr ''null''"
| "js_String (JBool b) = Inr (if b then ''true'' else ''false'')"
| "js_String (JNum n) = Inr (show_int (sint n))"
| "js_String (JStr s) = Inr s"
| "js_String (JArr xs) = (case js_join xs of Inl e \<Rightarrow> Inl e | Inr ss \<Rightarrow> Inr (join '','' ss))"
| "js_String (JObj kvs) =
     (if map_of kvs ''toString'' = None then Inr ''[object Object]'' else Inl cannot_convert)"
| "js_join [] = Inr []"
| "js_join (x # xs) =
     (case (if x = JUndefined \<or> x = JNull then Inr [] else js_String x) of
        Inl e \<Rightarrow> Inl e
      | Inr s \<Rightarrow> (case js_join xs of Inl e \<Rightarrow> Inl e | Inr ss \<Rightarrow> Inr (s # ss)))"

text \<open>
  Property access. \<open>member v k\<close> is \<^verbatim>\<open>v.k\<close>: a TypeError on \<^verbatim>\<open>undefined\<close>
  and \<^verbatim>\<open>null\<close>. None of the property names the source reads exists on a string, a
  number, a boolean or an array, so there the result is \<^verbatim>\<open>undefined\<close>.
  \<open>opt_member v k\<close> is \<^verbatim>\<open>v?.k\<close>.
\<close>

definition opt_member :: "jsval \<Rightarrow> string \<Rightarrow> jsval" where
  "opt_member v k =
     (case v of JObj kvs \<Rightarrow> (case map_of kvs k of Some x \<Rightarrow> x | None \<Rightarrow> JUndefined)
              | _ \<Rightarrow> JUndefined)"

definition nullish :: "jsval \<Rightarrow> bool" where
  "nullish v = (v = JUndefined \<or> v = JNull)"

definition member :: "jsval \<Rightarrow> string \<Rightarrow> js_error + jsval" where
  "member v k =
     (if nullish v
      then Inl (Exn ''TypeError'' (''Cannot read properties of ''
                 @ (if v = JNull then ''null'' else ''undefined'') @ '' (reading '' @ k @ '')''))
      else Inr (opt_member v k))"

text \<open>\<^verbatim>\<open>v?.[0]\<close>: the first element of an array, the first character of a string.\<close>

definition opt_first :: "jsval \<Rightarrow> jsval" where
  "opt_first v =
     (case v of
        JArr xs \<Rightarrow> (case xs of [] \<Rightarrow> JUndefined | x # _ \<Rightarrow> x)
      | JStr s \<Rightarrow> (case s of [] \<Rightarrow> JUndefined | c # _ \<Rightarrow> JStr [c])
      | JObj kvs \<Rightarrow> (case map_of kvs ''0'' of Some x \<Rightarrow> x | None \<Rightarrow> JUndefined)
      | _ \<Rightarrow> JUndefined)"

text \<open>
  Object destructuring \<^verbatim>\<open>const { k, ... } = v\<close>: a TypeError when \<open>v\<close> is
  \<^verbatim>\<open>undefined\<close> or \<^verbatim>\<open>null\<close>; \<open>field_or\<close> is a pattern with a default,
  \<^verbatim>\<open>{ k = d }\<close>, which applies to \<^verbatim>\<open>undefined\<close> only.
\<close>

definition destructure :: "jsval \<Rightarrow> js_error + jsval" where
  "destructure v =
     (if nullish v
      then Inl (Exn ''TypeError''
                 (''Cannot destructure '' @ (if v = JNull then ''null'' else ''undefined'')))
      else Inr v)"

definition field_or :: "jsval \<Rightarrow> string \<Rightarrow> jsval \<Rightarrow> jsval" where
  "field_or v k d = (if opt_member v k = JUndefined then d else opt_member v k)"

section \<open>Base64, as the runtime's Buffer does it\<close>

type_synonym byte = "8 word"

definition b64_alphabet :: string where
  "b64_alphabet = ''ABCDEFGHIJKLMNOPQRSTUVWXYZabcdefghijklmnopqrstuvwxyz0123456789+/''"

definition b64_char :: "nat \<Rightarrow> char" where
  "b64_char n = b64_alphabet ! n"

fun index_of :: "'a \<Rightarrow> 'a list \<Rightarrow> nat option" where
  "index_of x [] = None"
| "index_of x (y # ys) = (if x = y then Some 0 else map_option Suc (index_of x ys))"

text \<open>The decoder also reads the URL-safe alphabet.\<close>

definition b64_val :: "char \<Rightarrow> nat option" where
  "b64_val c =
     (if c = CHR ''-'' then Some 62 else if c = CHR ''_'' then Some 63
      else index_of c b64_alphabet)"

text \<open>\<^verbatim>\<open>buf.toString('base64')\<close>\<close>

fun to_base64 :: "byte list \<Rightarrow> string" where
  "to_base64 [] = []"
| "to_base64 [a] =
     [b64_char (unat a div 4), b64_char (unat a mod 4 * 16), CHR ''='', CHR ''='']"
| "to_base64 [a, b] =
     [b64_char (unat a div 4), b64_char (unat a mod 4 * 16 + unat b div 16),
      b64_char (unat b mod 16 * 4), CHR ''='']"
| "to_base64 (a # b # c # rest) =
     [b64_char (unat a div 4), b64_char (unat a mod 4 * 16 + unat b div 16),
      b64_char (unat b mod 16 * 4 + unat c div 64), b64_char (unat c mod 64)]
     @ to_base64 rest"

fun from_sextets :: "nat list \<Rightarrow> byte list" where
  "from_sextets (a # b # c # d # rest) =
     [of_nat (a * 4 + b div 16), of_nat (b mod 16 * 16 + c div 4), of_nat (c mod 4 * 64 + d)]
     @ from_sextets rest"
| "from_sextets [a, b, c] = [of_nat (a * 4 + b div 16), of_nat (b mod 16 * 16 + c div 4)]"
| "from_sextets [a, b] = [of_nat (a * 4 + b div 16)]"
| "from_sextets [a] = []"
| "from_sextets [] = []"

text \<open>
  \<^verbatim>\<open>Buffer.from(s, 'base64')\<close> never throws on a string: decoding stops at the first
  \<^verbatim>\<open>=\<close>, characters outside the alphabet are skipped, and a trailing group gives the
  bytes it has the bits for.
\<close>

definition b64_sextets :: "string \<Rightarrow> nat list" where
  "b64_sextets s = List.map_filter b64_val (takeWhile (\<lambda>c. c \<noteq> CHR ''='') s)"

definition from_base64 :: "string \<Rightarrow> byte list" where
  "from_base64 s = from_sextets (b64_sextets s)"

section \<open>Data URLs\<close>

text \<open>
  \<^verbatim>\<open>s.split(',')\<close>: the pieces between the commas; never an empty list.
\<close>

fun split_comma :: "string \<Rightarrow> string list" where
  "split_comma [] = [[]]"
| "split_comma (c # cs) =
     (if c = CHR '','' then [] # split_comma cs
      else (case split_comma cs of p # ps \<Rightarrow> (c # p) # ps | [] \<Rightarrow> [[c]]))"

fun strip_prefix :: "string \<Rightarrow> string \<Rightarrow> string option" where
  "strip_prefix [] s = Some s"
| "strip_prefix (p # ps) [] = None"
| "strip_prefix (p # ps) (c # cs) = (if p = c then strip_prefix ps cs else None)"

definition starts_with :: "string \<Rightarrow> string \<Rightarrow> bool" where
  "starts_with s p = (strip_prefix p s \<noteq> None)"

text \<open>
  \<^verbatim>\<open>header.match(/data:([^;]+)/)?.[1]\<close>: the leftmost place where \<^verbatim>\<open>data:\<close> is
  followed by at least one character other than \<^verbatim>\<open>;\<close>; the group is the longest run of
  such characters.
\<close>

fun match_mime :: "string \<Rightarrow> string option" where
  "match_mime [] = None"
| "match_mime (c # cs) =
     (case strip_prefix ''data:'' (c # cs) of
        Some rest \<Rightarrow>
          (if takeWhile (\<lambda>x. x \<noteq> CHR '';'') rest \<noteq> [] then Some (takeWhile (\<lambda>x. x \<noteq> CHR '';'') rest)
           else match_mime cs)
      | None \<Rightarrow> match_mime cs)"

text \<open>
  \<^verbatim>\<open>const [header, base64] = String(image_url).split(',')\<close>: the first piece, and
  the second one or \<^verbatim>\<open>undefined\<close>.
\<close>

definition split_header :: "string \<Rightarrow> string \<times> string option" where
  "split_header s =
     (case split_comma s of
        h # b # _ \<Rightarrow> (h, Some b)
      | [h] \<Rightarrow> (h, None)
      | [] \<Rightarrow> ([], None))"

text \<open>\<^verbatim>\<open>header.match(/data:([^;]+)/)?.[1] || 'image/png'\<close>\<close>

definition header_mime :: "string \<Rightarrow> string" where
  "header_mime header = (case match_mime header of Some m \<Rightarrow> m | None \<Rightarrow> ''image/png'')"

record image_file =
  file_bytes :: "byte list"
  file_name :: string
  file_type :: string

text \<open>
  \<^verbatim>\<open>new File([buffer], name, { type })\<close>. The constructor keeps the bytes and the name
  and normalises the type: the empty string if the type has a character outside
  U+0020 to U+007E, the type in ASCII lower case otherwise.
\<close>

definition printable :: "char \<Rightarrow> bool" where
  "printable c = (32 \<le> (of_char c :: nat) \<and> (of_char c :: nat) \<le> 126)"

definition is_upper :: "char \<Rightarrow> bool" where
  "is_upper c = (65 \<le> (of_char c :: nat) \<and> (of_char c :: nat) \<le> 90)"

definition ascii_lower :: "char \<Rightarrow> char" where
  "ascii_lower c = (if is_upper c then char_of ((of_char c :: nat) + 32) else c)"

definition file_type_of :: "string \<Rightarrow> string" where
  "file_type_of t = (if list_all printable t then map ascii_lower t else [])"

definition new_file :: "byte list \<Rightarrow> string \<Rightarrow> string \<Rightarrow> image_file" where
  "new_file bits name type = \<lparr>file_bytes = bits, file_name = name, file_type = file_type_of type\<rparr>"

text \<open>
  The data-URL branch of \<^verbatim>\<open>editImage\<close> in \<^verbatim>\<open>src/index.ts\<close> (lines 222 to 225).
  \<^verbatim>\<open>Buffer.from(undefined, 'base64')\<close> raises the runtime's TypeError; the file is
  made by \<^verbatim>\<open>new File([buffer], 'image.png', { type: mimeType })\<close>.
\<close>

definition buffer_from_undefined :: js_error where
  "buffer_from_undefined =
     Exn ''TypeError''
       (''The first argument must be of type string or an instance of Buffer, ArrayBuffer, ''
        @ ''or Array or an Array-like Object. Received undefined'')"

definition decode_data_url :: "string \<Rightarrow> js_error + image_file" where
  "decode_data_url s =
     (case split_header s of
        (header, b64) \<Rightarrow>
          (let mimeType = header_mime header in
           case b64 of
             None \<Rightarrow> Inl buffer_from_undefined
           | Some b \<Rightarrow> Inr (new_file (from_base64 b) ''image.png'' mimeType)))"


section \<open>The outside world\<close>

text \<open>
  Every call that leaves the process is an event of a trace: a \<^verbatim>\<open>fetch\<close>, a
  \<^verbatim>\<open>generateContent\<close> call of the Gemini SDK, a chat completion of the OpenAI SDK,
  and the \<^verbatim>\<open>setTimeout\<close> wait of the poll loop (in milliseconds).
\<close>

datatype form_value = FText string | FFile image_file

datatype body = NoBody | JsonBody jsval | FormBody "(string \<times> form_value) list"

record request =
  req_url :: string
  req_method :: string
  req_headers :: "(string \<times> string) list"
  req_body :: body

text \<open>
  What the outside world rejects a call with: \<^verbatim>\<open>fetch\<close>, the body readers of a
  \<^verbatim>\<open>Response\<close>, both SDKs and the runtime reject with instances of \<^verbatim>\<open>Error\<close> only
  (a name and a message).
\<close>

datatype rejection = Rejection string string

fun thrown_of :: "rejection \<Rightarrow> js_error" where
  "thrown_of (Rejection name message) = Exn name message"

text \<open>
  What the source reads of a \<^verbatim>\<open>Response\<close>: \<^verbatim>\<open>ok\<close>, \<^verbatim>\<open>status\<close>,
  \<^verbatim>\<open>statusText\<close>, \<^verbatim>\<open>json()\<close> and \<^verbatim>\<open>arrayBuffer()\<close> (both can reject). The
  content type is a header of the reply that the source never reads.
\<close>

record response =
  ok :: bool
  status :: nat
  statusText :: string
  content_type :: string
  json :: "rejection + jsval"
  arrayBuffer :: "rejection + byte list"

datatype event =
    Sleep nat
  | Fetch request
  | GenerateContent string jsval
  | ChatCompletion string string string

text \<open>
  The environment: the configuration read at start-up and the answers of the outside
  world, which may depend on everything that happened before. The last three fields are
  functions of the runtime that the handlers call on their way to a text
  (\<^verbatim>\<open>URLSearchParams\<close>, and the \<^verbatim>\<open>JSON.stringify\<close>, \<^verbatim>\<open>slice\<close>, \<^verbatim>\<open>map\<close>
  and \<^verbatim>\<open>toLocaleDateString\<close> calls that format the text of
  \<^verbatim>\<open>getCulturalInsights\<close> and \<^verbatim>\<open>listMedia\<close>, which can raise a TypeError).
\<close>

record env =
  base_url :: string
  openai_configured :: bool
  openai_model :: string
  fetch_reply :: "event list \<Rightarrow> request \<Rightarrow> rejection + response"
  generate_reply :: "event list \<Rightarrow> string \<Rightarrow> jsval \<Rightarrow> rejection + jsval"
  chat_reply :: "event list \<Rightarrow> string \<Rightarrow> string \<Rightarrow> string \<Rightarrow> rejection + jsval"
  query_string :: "(string \<times> string) list \<Rightarrow> string"
  render_insights :: "jsval \<Rightarrow> jsval \<Rightarrow> jsval \<Rightarrow> rejection + string"
  render_media :: "jsval \<Rightarrow> rejection + string"

text \<open>
  An \<^verbatim>\<open>async\<close> function: it reads and extends the trace, and either returns or
  throws.
\<close>

type_synonym 'a io = "event list \<Rightarrow> (js_error + 'a) \<times> event list"

definition io_return :: "'a \<Rightarrow> 'a io" where
  "io_return x = (\<lambda>tr. (Inr x, tr))"

definition io_throw :: "js_error \<Rightarrow> 'a io" where
  "io_throw e = (\<lambda>tr. (Inl e, tr))"

definition io_lift :: "js_error + 'a \<Rightarrow> 'a io" where
  "io_lift r = (\<lambda>tr. (r, tr))"

text \<open>\<^verbatim>\<open>await\<close> on something the outside world settled.\<close>

definition settled :: "rejection + 'a \<Rightarrow> js_error + 'a" where
  "settled r = (case r of Inl x \<Rightarrow> Inl (thrown_of x) | Inr y \<Rightarrow> Inr y)"

definition io_await :: "rejection + 'a \<Rightarrow> 'a io" where
  "io_await r = (\<lambda>tr. (settled r, tr))"

definition io_bind :: "'a io \<Rightarrow> ('a \<Rightarrow> 'b io) \<Rightarrow> 'b io" where
  "io_bind m f = (\<lambda>tr. case m tr of (Inl e, tr') \<Rightarrow> (Inl e, tr') | (Inr x, tr') \<Rightarrow> f x tr')"

text \<open>\<^verbatim>\<open>try { ... } catch (error) { ... }\<close>\<close>

definition try_catch :: "'a io \<Rightarrow> (js_error \<Rightarrow> 'a io) \<Rightarrow> 'a io" where
  "try_catch m h = (\<lambda>tr. case m tr of (Inl e, tr') \<Rightarrow> h e tr' | (Inr x, tr') \<Rightarrow> (Inr x, tr'))"

text \<open>\<^verbatim>\<open>String(v)\<close> and \<^verbatim>\<open>${v}\<close> inside an \<^verbatim>\<open>async\<close> function.\<close>

definition io_String :: "jsval \<Rightarrow> string io" where
  "io_String v = io_lift (js_String v)"

definition do_fetch :: "env \<Rightarrow> request \<Rightarrow> response io" where
  "do_fetch E req = (\<lambda>tr. (settled (fetch_reply E tr req), tr @ [Fetch req]))"

definition do_sleep :: "nat \<Rightarrow> unit io" where
  "do_sleep ms = (\<lambda>tr. (Inr (), tr @ [Sleep ms]))"

definition do_generate :: "env \<Rightarrow> string \<Rightarrow> jsval \<Rightarrow> jsval io" where
  "do_generate E modelId contents =
     (\<lambda>tr. (settled (generate_reply E tr modelId contents), tr @ [GenerateContent modelId contents]))"

definition do_chat :: "env \<Rightarrow> string \<Rightarrow> string \<Rightarrow> string \<Rightarrow> jsval io" where
  "do_chat E model sys user =
     (\<lambda>tr. (settled (chat_reply E tr model sys user), tr @ [ChatCompletion model sys user]))"

section \<open>Tool results\<close>

text \<open>
  A content block of type \<^verbatim>\<open>text\<close>. \<open>RawText v\<close> is such a block whose \<^verbatim>\<open>text\<close> is
  the value \<open>v\<close>, which is no string: \<^verbatim>\<open>getCulturalInsights\<close> of
  \<^verbatim>\<open>src/standalone.ts\<close> passes the content of the completion on as it came.
\<close>

datatype content_block = Text string | RawText jsval

record tool_result =
  content :: "content_block list"

definition text_result :: "string \<Rightarrow> tool_result" where
  "text_result t = \<lparr>content = [Text t]\<rparr>"

definition nl :: string where
  "nl = [CHR 0x0A]"

definition check_mark :: string where
  "check_mark = [CHR 0xE2, CHR 0x9C, CHR 0x85]"

definition hourglass :: string where
  "hourglass = [CHR 0xE2, CHR 0x8F, CHR 0xB3]"

definition folder :: string where
  "folder = [CHR 0xF0, CHR 0x9F, CHR 0x93, CHR 0x82]"

definition json_headers :: "(string \<times> string) list" where
  "json_headers = [(''Content-Type'', ''application/json'')]"

definition post_json :: "string \<Rightarrow> jsval \<Rightarrow> request" where
  "post_json u v = \<lparr>req_url = u, req_method = ''POST'', req_headers = json_headers, req_body = JsonBody v\<rparr>"

definition post_form :: "string \<Rightarrow> (string \<times> form_value) list \<Rightarrow> request" where
  "post_form u fd = \<lparr>req_url = u, req_method = ''POST'', req_headers = [], req_body = FormBody fd\<rparr>"

definition get_url :: "string \<Rightarrow> request" where
  "get_url u = \<lparr>req_url = u, req_method = ''GET'', req_headers = [], req_body = NoBody\<rparr>"

section \<open>src/index.ts: the handlers of AlchemyMCPServer\<close>

text \<open>
  \<^verbatim>\<open>(data as any).image?.url || `data:${...image?.mimeType};base64,${...image?.imageBytes}`\<close>,
  as \<^verbatim>\<open>generateImage\<close> and \<^verbatim>\<open>editImage\<close> compute it after \<^verbatim>\<open>data.error\<close>
  was read (so \<open>data\<close> is neither \<^verbatim>\<open>null\<close> nor \<^verbatim>\<open>undefined\<close>).
\<close>

definition image_url_of :: "jsval \<Rightarrow> jsval io" where
  "image_url_of data =
     (if truthy (opt_member (opt_member data ''image'') ''url'')
      then io_return (opt_member (opt_member data ''image'') ''url'')
      else
        io_bind (io_String (opt_member (opt_member data ''image'') ''mimeType'')) (\<lambda>mimeType.
        io_bind (io_String (opt_member (opt_member data ''image'') ''imageBytes'')) (\<lambda>imageBytes.
          io_return (JStr (''data:'' @ mimeType @ '';base64,'' @ imageBytes)))))"

definition generateImage :: "env \<Rightarrow> jsval \<Rightarrow> tool_result io" where
  "generateImage E args =
     io_bind (io_lift (destructure args)) (\<lambda>a.
       let prompt = opt_member a ''prompt'';
           model = field_or a ''model'' (JStr ''gemini'');
           endpoint = (if model = JStr ''imagen'' then ''/api/imagen/generate''
                       else ''/api/gemini/generate'')
       in
       io_bind (do_fetch E (post_json (base_url E @ endpoint) (JObj [(''prompt'', prompt)]))) (\<lambda>response.
         if \<not> ok response
         then io_throw (Exn ''Error''
                (''API error: '' @ digits (status response) @ '' '' @ statusText response))
         else
           io_bind (io_await (json response)) (\<lambda>data.
           io_bind (io_lift (member data ''error'')) (\<lambda>err.
             if truthy err
             then io_bind (io_String err) (\<lambda>message. io_throw (Exn ''Error'' message))
             else
               io_bind (image_url_of data) (\<lambda>imageUrl.
               io_bind (io_String model) (\<lambda>model_text.
               io_bind (io_String prompt) (\<lambda>prompt_text.
               io_bind (io_String imageUrl) (\<lambda>url_text.
                 io_return (text_result
                   (check_mark @ '' Image generated successfully using '' @ model_text
                    @ nl @ nl @ ''Prompt: '' @ prompt_text
                    @ nl @ nl @ ''Image URL: '' @ url_text))))))))))"

text \<open>
  The first half of \<^verbatim>\<open>editImage\<close>: the image to send, from a data URL or fetched
  from a remote URL.
\<close>

definition edit_source :: "env \<Rightarrow> jsval \<Rightarrow> image_file io" where
  "edit_source E image_url =
     io_bind (io_String image_url) (\<lambda>url.
       if starts_with url ''data:''
       then io_lift (decode_data_url url)
       else
         io_bind (do_fetch E (get_url url)) (\<lambda>imageResponse.
           if \<not> ok imageResponse
           then io_throw (Exn ''Error'' (''Failed to fetch image: '' @ statusText imageResponse))
           else
             io_bind (io_await (arrayBuffer imageResponse)) (\<lambda>buffer.
               io_return (new_file buffer ''image.png'' ''image/png''))))"

definition editImage :: "env \<Rightarrow> jsval \<Rightarrow> tool_result io" where
  "editImage E args =
     io_bind (io_lift (destructure args)) (\<lambda>a.
       let prompt = opt_member a ''prompt'';
           image_url = opt_member a ''image_url''
       in
       io_bind (edit_source E image_url) (\<lambda>imageFile.
       io_bind (io_String prompt) (\<lambda>prompt_text.
       io_bind (do_fetch E (post_form (base_url E @ ''/api/gemini/edit'')
                  [(''prompt'', FText prompt_text), (''imageFile'', FFile imageFile)])) (\<lambda>response.
         if \<not> ok response
         then io_throw (Exn ''Error''
                (''API error: '' @ digits (status response) @ '' '' @ statusText response))
         else
           io_bind (io_await (json response)) (\<lambda>data.
           io_bind (io_lift (member data ''error'')) (\<lambda>err.
             if truthy err
             then io_bind (io_String err) (\<lambda>message. io_throw (Exn ''Error'' message))
             else
               io_bind (image_url_of data) (\<lambda>resultUrl.
               io_bind (io_String prompt) (\<lambda>prompt_echo.
               io_bind (io_String resultUrl) (\<lambda>url_text.
                 io_return (text_result
                   (check_mark @ '' Image edited successfully''
                    @ nl @ nl @ ''Edit instructions: '' @ prompt_echo
                    @ nl @ nl @ ''Result URL: '' @ url_text)))))))))))"

text \<open>
  The form that starts a video generation (lines 271 to 286); \<^verbatim>\<open>append\<close> converts
  each value to a string.
\<close>

definition video_form :: "jsval \<Rightarrow> jsval \<Rightarrow> jsval \<Rightarrow> (string \<times> form_value) list io" where
  "video_form prompt image_url aspect_ratio =
     io_bind (io_String prompt) (\<lambda>prompt_text.
     io_bind (io_String aspect_ratio) (\<lambda>ratio_text.
       let fields = [(''prompt'', FText prompt_text),
                     (''model'', FText ''veo-3.0-generate-001''),
                     (''aspectRatio'', FText ratio_text)]
       in
       if truthy image_url then
         io_bind (io_String image_url) (\<lambda>url.
           if starts_with url ''data:'' then
             (case split_header url of
                (header, base64) \<Rightarrow>
                  io_return (fields @
                    [(''imageBase64'', FText (case base64 of Some b \<Rightarrow> b | None \<Rightarrow> ''undefined'')),
                     (''imageMimeType'', FText (header_mime header))]))
           else io_return (fields @ [(''imageUrl'', FText url)]))
       else io_return fields))"

definition maxAttempts :: nat where
  "maxAttempts = 30"

text \<open>
  \<^verbatim>\<open>pollData.response?.candidates?.[0]?.content?.parts?.[0]?.file_data?.file_uri || pollData.uris?.[0]\<close>
\<close>

definition file_uri_of :: "jsval \<Rightarrow> jsval" where
  "file_uri_of pollData =
     js_or
       (opt_member (opt_member (opt_first (opt_member (opt_member (opt_first
          (opt_member (opt_member pollData ''response'') ''candidates''))
          ''content'') ''parts'')) ''file_data'') ''file_uri'')
       (opt_first (opt_member pollData ''uris''))"

text \<open>The two texts of \<^verbatim>\<open>generateVideo\<close>, on the strings of their substitutions.\<close>

definition video_done_text :: "string \<Rightarrow> string \<Rightarrow> string \<Rightarrow> string" where
  "video_done_text prompt url aspect_ratio =
     check_mark @ '' Video generated successfully'' @ nl @ nl @ ''Prompt: '' @ prompt
     @ nl @ nl @ ''Video URL: '' @ url
     @ nl @ nl @ ''Aspect Ratio: '' @ aspect_ratio"

definition video_timeout_text :: "string \<Rightarrow> string" where
  "video_timeout_text operationName =
     hourglass @ '' Video generation started but timed out waiting for completion.''
     @ nl @ nl @ ''Operation: '' @ operationName
     @ nl @ nl @ ''Check the gallery in a few minutes.''"

definition poll_request :: "env \<Rightarrow> jsval \<Rightarrow> request" where
  "poll_request E operationName =
     post_json (base_url E @ ''/api/veo/operation'') (JObj [(''name'', operationName)])"

definition download_request :: "env \<Rightarrow> jsval \<Rightarrow> request" where
  "download_request E fileUri =
     post_json (base_url E @ ''/api/veo/download'') (JObj [(''uri'', fileUri), (''save'', JBool True)])"

text \<open>
  One turn of the \<^verbatim>\<open>while\<close> loop of \<^verbatim>\<open>generateVideo\<close> (lines 309 to 346), up to
  but not including \<^verbatim>\<open>attempts++\<close>: \<open>Some r\<close> is the \<^verbatim>\<open>return\<close> inside the loop,
  \<open>None\<close> falls through to the increment. The text of the result is a template
  literal: it converts the prompt, reads \<^verbatim>\<open>downloadData.url\<close> and converts it, and
  converts the aspect ratio, in this order.
\<close>

definition poll_attempt :: "env \<Rightarrow> jsval \<Rightarrow> jsval \<Rightarrow> jsval \<Rightarrow> tool_result option io" where
  "poll_attempt E prompt aspect_ratio operationName =
     io_bind (do_sleep 10000) (\<lambda>_.
     io_bind (do_fetch E (poll_request E operationName)) (\<lambda>pollResponse.
       if ok pollResponse then
         io_bind (io_await (json pollResponse)) (\<lambda>pollData.
         io_bind (io_lift (member pollData ''done'')) (\<lambda>done.
           if truthy done then
             (if truthy (file_uri_of pollData) then
                io_bind (do_fetch E (download_request E (file_uri_of pollData))) (\<lambda>downloadResponse.
                  if ok downloadResponse then
                    io_bind (io_await (json downloadResponse)) (\<lambda>downloadData.
                    io_bind (io_String prompt) (\<lambda>prompt_text.
                    io_bind (io_lift (member downloadData ''url'')) (\<lambda>url.
                    io_bind (io_String url) (\<lambda>url_text.
                    io_bind (io_String aspect_ratio) (\<lambda>ratio_text.
                      io_return (Some (text_result
                        (video_done_text prompt_text url_text ratio_text))))))))
                  else io_return None)
              else io_return None)
           else io_return None))
       else io_return None))"

text \<open>
  The loop, and after it the text of the time-out, which converts the operation name.
\<close>

function poll_loop :: "env \<Rightarrow> jsval \<Rightarrow> jsval \<Rightarrow> jsval \<Rightarrow> nat \<Rightarrow> tool_result io" where
  "poll_loop E prompt aspect_ratio operationName attempts tr =
     (if attempts < maxAttempts then
        (case poll_attempt E prompt aspect_ratio operationName tr of
           (Inl e, tr') \<Rightarrow> (Inl e, tr')
         | (Inr (Some r), tr') \<Rightarrow> (Inr r, tr')
         | (Inr None, tr') \<Rightarrow> poll_loop E prompt aspect_ratio operationName (Suc attempts) tr')
      else
        (case js_String operationName of
           Inl e \<Rightarrow> (Inl e, tr)
         | Inr name \<Rightarrow> (Inr (text_result (video_timeout_text name)), tr)))"
  by pat_completeness auto
termination
  by (relation "measure (\<lambda>(E, prompt, aspect_ratio, operationName, attempts, tr). maxAttempts - attempts)") auto

declare poll_loop.simps [simp del]

definition generateVideo :: "env \<Rightarrow> jsval \<Rightarrow> tool_result io" where
  "generateVideo E args =
     io_bind (io_lift (destructure args)) (\<lambda>a.
       let prompt = opt_member a ''prompt'';
           image_url = opt_member a ''image_url'';
           aspect_ratio = field_or a ''aspect_ratio'' (JStr ''16:9'')
       in
       io_bind (video_form prompt image_url aspect_ratio) (\<lambda>formData.
       io_bind (do_fetch E (post_form (base_url E @ ''/api/veo/generate'') formData)) (\<lambda>generateResponse.
         if \<not> ok generateResponse
         then io_throw (Exn ''Error'' (''Generate API error: '' @ digits (status generateResponse)))
         else
           io_bind (io_await (json generateResponse)) (\<lambda>generateData.
           io_bind (io_lift (member generateData ''name'')) (\<lambda>operationName.
             if \<not> truthy operationName
             then io_throw (Exn ''Error'' ''No operation name returned from video generation'')
             else poll_loop E prompt aspect_ratio operationName 0)))))"

definition getCulturalInsights :: "env \<Rightarrow> jsval \<Rightarrow> tool_result io" where
  "getCulturalInsights E args =
     io_bind (io_lift (destructure args)) (\<lambda>a.
       let city = opt_member a ''city'';
           country = opt_member a ''country'';
           business_type = opt_member a ''business_type'';
           target_audience = opt_member a ''target_audience''
       in
       io_bind (do_fetch E (post_json (base_url E @ ''/api/cultural/intelligence'')
                  (JObj [(''city'', city), (''country'', country),
                         (''businessType'', business_type),
                         (''targetAudience'', target_audience),
                         (''analysisDepth'', JStr ''basic'')]))) (\<lambda>response.
         if \<not> ok response
         then io_throw (Exn ''Error'' (''Cultural API error: '' @ digits (status response)))
         else
           io_bind (io_await (json response)) (\<lambda>data.
           io_bind (io_lift (member data ''analysis'')) (\<lambda>analysis.
             if \<not> truthy analysis
             then io_bind (io_String (js_or (opt_member data ''error'') (JStr ''Cultural analysis failed'')))
                    (\<lambda>message. io_throw (Exn ''Error'' message))
             else io_bind (io_await (render_insights E city country data)) (\<lambda>t.
                    io_return (text_result t))))))"

text \<open>\<^verbatim>\<open>media.length === 0\<close>\<close>

definition length_is_zero :: "jsval \<Rightarrow> bool" where
  "length_is_zero v =
     (case v of JArr xs \<Rightarrow> xs = [] | JStr s \<Rightarrow> s = []
              | _ \<Rightarrow> opt_member v ''length'' = JNum 0)"

definition listMedia :: "env \<Rightarrow> jsval \<Rightarrow> tool_result io" where
  "listMedia E args =
     io_bind (io_lift (destructure args)) (\<lambda>a.
       let type = field_or a ''type'' (JStr ''all'');
           limit = field_or a ''limit'' (JNum 10)
       in
       io_bind (if type \<noteq> JStr ''all''
                then io_bind (io_String type) (\<lambda>type_text. io_return [(''type'', type_text)])
                else io_return []) (\<lambda>type_param.
       io_bind (io_String limit) (\<lambda>limit_text.
       io_bind (do_fetch E (get_url (base_url E @ ''/api/media?''
                  @ query_string E (type_param @ [(''limit'', limit_text)])))) (\<lambda>response.
         if \<not> ok response
         then io_throw (Exn ''Error'' (''Media API error: '' @ digits (status response)))
         else
           io_bind (io_await (json response)) (\<lambda>data.
           io_bind (io_lift (member data ''media'')) (\<lambda>m.
             let media = js_or m (JArr []) in
             if length_is_zero media
             then io_return (text_result (folder @ '' No media found in gallery''))
             else io_bind (io_await (render_media E media)) (\<lambda>t.
                    io_return (text_result t))))))))"

text \<open>
  The handler of \<^verbatim>\<open>CallToolRequestSchema\<close> (lines 157 to 179): the \<^verbatim>\<open>switch\<close> on
  the tool name inside \<^verbatim>\<open>try\<close>, and the \<^verbatim>\<open>catch\<close> that turns whatever was
  thrown into a text.
\<close>

definition tool_switch :: "env \<Rightarrow> string \<Rightarrow> jsval \<Rightarrow> tool_result io" where
  "tool_switch E name args =
     (if name = ''generate_image'' then generateImage E args
      else if name = ''edit_image'' then editImage E args
      else if name = ''generate_video'' then generateVideo E args
      else if name = ''get_cultural_insights'' then getCulturalInsights E args
      else if name = ''list_media'' then listMedia E args
      else io_throw (Exn ''Error'' (''Unknown tool: '' @ name)))"

text \<open>\<^verbatim>\<open>error instanceof Error ? error.message : 'Unknown error'\<close>\<close>

fun catch_message :: "js_error \<Rightarrow> string" where
  "catch_message (Exn name message) = message"
| "catch_message (Thrown v) = ''Unknown error''"

definition callTool :: "env \<Rightarrow> string \<Rightarrow> jsval \<Rightarrow> tool_result io" where
  "callTool E name args =
     try_catch (tool_switch E name args)
       (\<lambda>error. io_return (text_result (''Error: '' @ catch_message error)))"

section \<open>src/standalone.ts: the handlers of StandaloneAlchemyMCP\<close>

definition image_model_id :: string where
  "image_model_id = ''gemini-2.5-flash-image-preview''"

text \<open>
  \<^verbatim>\<open>for (const p of parts) { if (p?.inlineData?.data) { inlineData = p.inlineData; break; } }\<close>
  with \<^verbatim>\<open>inlineData\<close> starting as \<^verbatim>\<open>null\<close>. A string iterates over its characters,
  none of which has an \<^verbatim>\<open>inlineData\<close>; any other value that is no array is not
  iterable.
\<close>

fun first_inline :: "jsval list \<Rightarrow> jsval" where
  "first_inline [] = JNull"
| "first_inline (p # ps) =
     (if truthy (opt_member (opt_member p ''inlineData'') ''data'')
      then opt_member p ''inlineData'' else first_inline ps)"

definition find_inline :: "jsval \<Rightarrow> js_error + jsval" where
  "find_inline parts =
     (case parts of
        JArr ps \<Rightarrow> Inr (first_inline ps)
      | JStr s \<Rightarrow> Inr JNull
      | _ \<Rightarrow> Inl (Exn ''TypeError'' ''parts is not iterable''))"

text \<open>\<^verbatim>\<open>result?.response?.candidates?.[0]?.content?.parts || []\<close>\<close>

definition parts_of :: "jsval \<Rightarrow> jsval" where
  "parts_of result =
     js_or (opt_member (opt_member (opt_first (opt_member (opt_member result ''response'')
              ''candidates'')) ''content'') ''parts'')
       (JArr [])"

text \<open>\<^verbatim>\<open>`data:${inlineData.mimeType || 'image/png'};base64,${inlineData.data}`\<close>\<close>

definition inline_data_url :: "jsval \<Rightarrow> string io" where
  "inline_data_url inlineData =
     io_bind (io_String (js_or (opt_member inlineData ''mimeType'') (JStr ''image/png''))) (\<lambda>mimeType.
     io_bind (io_String (opt_member inlineData ''data'')) (\<lambda>data.
       io_return (''data:'' @ mimeType @ '';base64,'' @ data)))"

definition user_contents :: "jsval list \<Rightarrow> jsval" where
  "user_contents parts =
     JObj [(''contents'', JArr [JObj [(''role'', JStr ''user''), (''parts'', JArr parts)]])]"

text \<open>
  One image generation: the \<^verbatim>\<open>generateContent\<close> call, the search for the first
  inline image and the result text under the given heading. The source writes these
  lines twice in \<^verbatim>\<open>generateImage\<close>, once in each branch of the test on \<open>model\<close>.
\<close>

definition generate_inline :: "env \<Rightarrow> jsval \<Rightarrow> string \<Rightarrow> tool_result io" where
  "generate_inline E prompt heading =
     io_bind (do_generate E image_model_id (user_contents [JObj [(''text'', prompt)]])) (\<lambda>result.
     io_bind (io_lift (find_inline (parts_of result))) (\<lambda>inlineData.
       if \<not> truthy (opt_member inlineData ''data'')
       then io_throw (Exn ''Error'' ''No image generated'')
       else
         io_bind (inline_data_url inlineData) (\<lambda>dataUrl.
         io_bind (io_String prompt) (\<lambda>prompt_text.
           io_return (text_result
             (check_mark @ heading @ nl @ nl @ ''Prompt: '' @ prompt_text
              @ nl @ nl @ dataUrl))))))"

text \<open>
  The body of \<^verbatim>\<open>generateImage\<close> after the destructuring (lines 99 to 132). The
  \<^verbatim>\<open>try\<close> block of the hosted variant's \<^verbatim>\<open>generate_image\<close> callback holds the same
  lines.
\<close>

definition generate_image_body :: "env \<Rightarrow> jsval \<Rightarrow> jsval \<Rightarrow> tool_result io" where
  "generate_image_body E prompt model =
     (if \<not> truthy prompt then io_throw (Exn ''Error'' ''Missing prompt'')
      else if model = JStr ''imagen''
      then generate_inline E prompt '' Image (Gemini fallback for Imagen)''
      else generate_inline E prompt '' Gemini image'')"

text \<open>\<^verbatim>\<open>const { prompt, model = 'gemini', aspect_ratio = '16:9' } = args || {}\<close>\<close>

definition standalone_generateImage :: "env \<Rightarrow> jsval \<Rightarrow> tool_result io" where
  "standalone_generateImage E args =
     (let a = js_or args (JObj []) in
      generate_image_body E (opt_member a ''prompt'') (field_or a ''model'' (JStr ''gemini'')))"

text \<open>
  The first half of \<^verbatim>\<open>editImage\<close> (lines 140 to 153): the base64 text and the mime
  type to send. In the data-URL branch \<^verbatim>\<open>base64Data\<close> is the second piece of the
  split, \<^verbatim>\<open>undefined\<close> when there is none.
\<close>

definition standalone_edit_source :: "env \<Rightarrow> jsval \<Rightarrow> (jsval \<times> string) io" where
  "standalone_edit_source E image_url =
     io_bind (io_String image_url) (\<lambda>url.
       if starts_with url ''data:''
       then
         (case split_header url of
            (header, b64) \<Rightarrow>
              io_return ((case b64 of Some b \<Rightarrow> JStr b | None \<Rightarrow> JUndefined), header_mime header))
       else
         io_bind (do_fetch E (get_url url)) (\<lambda>res.
           if \<not> ok res
           then io_throw (Exn ''Error'' (''Failed to fetch image: '' @ digits (status res)))
           else
             io_bind (io_await (arrayBuffer res)) (\<lambda>buff.
               io_return (JStr (to_base64 buff), ''image/png''))))"

text \<open>The argument of the \<^verbatim>\<open>generateContent\<close> call of \<^verbatim>\<open>editImage\<close>.\<close>

definition edit_contents :: "jsval \<Rightarrow> jsval \<Rightarrow> string \<Rightarrow> jsval" where
  "edit_contents prompt base64Data mimeType =
     user_contents [JObj [(''text'', prompt)],
       JObj [(''inlineData'', JObj [(''mimeType'', JStr mimeType), (''data'', base64Data)])]]"

definition standalone_editImage :: "env \<Rightarrow> jsval \<Rightarrow> tool_result io" where
  "standalone_editImage E args =
     (let a = js_or args (JObj []);
          prompt = opt_member a ''prompt'';
          image_url = opt_member a ''image_url''
      in
      if \<not> truthy prompt \<or> \<not> truthy image_url
      then io_throw (Exn ''Error'' ''Missing prompt or image_url'')
      else
        io_bind (standalone_edit_source E image_url) (\<lambda>(base64Data, mimeType).
        io_bind (do_generate E image_model_id (edit_contents prompt base64Data mimeType)) (\<lambda>result.
        io_bind (io_lift (find_inline (parts_of result))) (\<lambda>inlineData.
          if \<not> truthy (opt_member inlineData ''data'')
          then io_throw (Exn ''Error'' ''No edited image returned'')
          else
            io_bind (inline_data_url inlineData) (\<lambda>dataUrl.
            io_bind (io_String prompt) (\<lambda>prompt_text.
              io_return (text_result
                (check_mark @ '' Edited image'' @ nl @ nl @ ''Instructions: '' @ prompt_text
                 @ nl @ nl @ dataUrl))))))))"

definition insights_system_prompt :: string where
  "insights_system_prompt =
     ''You are a cultural intelligence assistant. Return concise, practical insights for marketing/creative.''
     @ nl @ ''Fields: profile, aesthetics, communication, themes.''
     @ nl @ ''Keep each field under ~6 bullet points. No markdown code fences.''"

definition insights_user_prompt :: "jsval \<Rightarrow> jsval \<Rightarrow> jsval \<Rightarrow> jsval \<Rightarrow> string io" where
  "insights_user_prompt city country business_type target_audience =
     io_bind (io_String city) (\<lambda>city_text.
     io_bind (io_String country) (\<lambda>country_text.
     io_bind (io_String (js_or business_type (JStr ''n/a''))) (\<lambda>business_text.
     io_bind (io_String (js_or target_audience (JStr ''general''))) (\<lambda>audience_text.
       io_return
         (''City: '' @ city_text @ nl @ ''Country: '' @ country_text
          @ nl @ ''Business: '' @ business_text
          @ nl @ ''Audience: '' @ audience_text
          @ nl @ ''Provide cultural insights with fields: profile, aesthetics, communication, themes.'')))))"

text \<open>
  \<^verbatim>\<open>resp.choices?.[0]?.message?.content || 'No insights generated'\<close>, put into the
  text block as it is.
\<close>

definition insights_result :: "jsval \<Rightarrow> tool_result" where
  "insights_result choices =
     (case js_or (opt_member (opt_member (opt_first choices) ''message'') ''content'')
             (JStr ''No insights generated'') of
        JStr s \<Rightarrow> text_result s
      | v \<Rightarrow> \<lparr>content = [RawText v]\<rparr>)"

text \<open>
  \<^verbatim>\<open>getCulturalInsights\<close>. The model is \<^verbatim>\<open>process.env.OPENAI_MODEL || 'gpt-4o-mini'\<close>
  (an unset variable is the empty string here).
\<close>

definition standalone_getCulturalInsights :: "env \<Rightarrow> jsval \<Rightarrow> tool_result io" where
  "standalone_getCulturalInsights E args =
     (let a = js_or args (JObj []);
          city = opt_member a ''city'';
          country = opt_member a ''country'';
          business_type = opt_member a ''business_type'';
          target_audience = opt_member a ''target_audience''
      in
      if \<not> truthy city \<or> \<not> truthy country
      then io_throw (Exn ''Error'' ''Missing city or country'')
      else if \<not> openai_configured E
      then io_throw (Exn ''Error'' ''OPENAI_API_KEY not set on server'')
      else
        io_bind (insights_user_prompt city country business_type target_audience) (\<lambda>prompt.
        io_bind (do_chat E (if openai_model E \<noteq> [] then openai_model E else ''gpt-4o-mini'')
                   insights_system_prompt prompt) (\<lambda>resp.
        io_bind (io_lift (member resp ''choices'')) (\<lambda>choices.
          io_return (insights_result choices)))))"

text \<open>The \<^verbatim>\<open>switch\<close> of the handler (lines 81 to 90).\<close>

definition standalone_tool_switch :: "env \<Rightarrow> string \<Rightarrow> jsval \<Rightarrow> tool_result io" where
  "standalone_tool_switch E name args =
     (if name = ''generate_image'' then standalone_generateImage E args
      else if name = ''edit_image'' then standalone_editImage E args
      else if name = ''get_cultural_insights'' then standalone_getCulturalInsights E args
      else io_throw (Exn ''Error'' (''Unknown tool: '' @ name)))"

text \<open>
  \<^verbatim>\<open>`Error: ${error?.message || String(error)}`\<close>: the message of an \<^verbatim>\<open>Error\<close>
  unless it is empty; \<^verbatim>\<open>String\<close> of an \<^verbatim>\<open>Error\<close> with an empty message is its
  name. On a thrown value that is no \<^verbatim>\<open>Error\<close> the conversion to a string can
  itself throw.
\<close>

fun standalone_catch_message :: "js_error \<Rightarrow> js_error + string" where
  "standalone_catch_message (Exn name message) = Inr (if message \<noteq> [] then message else name)"
| "standalone_catch_message (Thrown v) =
     (if truthy (opt_member v ''message'') then js_String (opt_member v ''message'')
      else js_String v)"

definition standalone_catch :: "js_error \<Rightarrow> tool_result io" where
  "standalone_catch error =
     io_bind (io_lift (standalone_catch_message error)) (\<lambda>message.
       io_return (text_result (''Error: '' @ message)))"

definition standalone_callTool :: "env \<Rightarrow> string \<Rightarrow> jsval \<Rightarrow> tool_result io" where
  "standalone_callTool E name args = try_catch (standalone_tool_switch E name args) standalone_catch"

section \<open>The generate_image tool of the hosted variant\<close>

text \<open>
  The third entry point registers each tool with an input schema and a callback. The
  server of the SDK parses the arguments of a call with the schema and runs the callback
  on the parsed object; arguments that do not parse are answered with the SDK's error for
  invalid parameters, and the callback is not run. The schema of \<^verbatim>\<open>generate_image\<close> is
  \<^verbatim>\<open>prompt: z.string()\<close>, \<^verbatim>\<open>model: z.enum(["imagen", "gemini"]).default("gemini")\<close>
  and \<^verbatim>\<open>aspect_ratio: z.enum(["16:9", "9:16", "1:1"]).default("16:9")\<close>: the
  arguments must be an object, \<^verbatim>\<open>prompt\<close> a string, and each of the other two absent
  (it then takes its default) or one of the listed strings.
\<close>

definition zod_string :: "jsval \<Rightarrow> jsval option" where
  "zod_string v = (case v of JStr s \<Rightarrow> Some v | _ \<Rightarrow> None)"

definition zod_enum_default :: "string list \<Rightarrow> string \<Rightarrow> jsval \<Rightarrow> jsval option" where
  "zod_enum_default values d v =
     (case v of
        JUndefined \<Rightarrow> Some (JStr d)
      | JStr s \<Rightarrow> (if s \<in> set values then Some v else None)
      | _ \<Rightarrow> None)"

definition generate_image_schema :: "jsval \<Rightarrow> jsval option" where
  "generate_image_schema args =
     (case args of
        JObj kvs \<Rightarrow>
          (case (zod_string (opt_member args ''prompt''),
                 zod_enum_default [''imagen'', ''gemini''] ''gemini'' (opt_member args ''model''),
                 zod_enum_default [''16:9'', ''9:16'', ''1:1''] ''16:9'' (opt_member args ''aspect_ratio'')) of
             (Some prompt, Some model, Some aspect_ratio) \<Rightarrow>
               Some (JObj [(''prompt'', prompt), (''model'', model), (''aspect_ratio'', aspect_ratio)])
           | _ \<Rightarrow> None)
      | _ \<Rightarrow> None)"

text \<open>
  The callback destructures \<^verbatim>\<open>{ prompt, model = "gemini", aspect_ratio = "16:9" }\<close> in
  its parameter list, outside its \<^verbatim>\<open>try\<close>; its \<^verbatim>\<open>catch\<close> holds the same template
  as the handler of \<^verbatim>\<open>src/standalone.ts\<close>.
\<close>

definition hosted_generate_image_callback :: "env \<Rightarrow> jsval \<Rightarrow> tool_result io" where
  "hosted_generate_image_callback E args =
     io_bind (io_lift (destructure args)) (\<lambda>a.
       try_catch
         (generate_image_body E (opt_member a ''prompt'') (field_or a ''model'' (JStr ''gemini'')))
         standalone_catch)"

datatype 'a validated = Invalid | Valid 'a

definition hosted_generate_image :: "env \<Rightarrow> jsval \<Rightarrow> (tool_result io) validated" where
  "hosted_generate_image E args =
     (case generate_image_schema args of
        None \<Rightarrow> Invalid
      | Some parsed \<Rightarrow> Valid (hosted_generate_image_callback E parsed))"

text \<open>The tool names each server announces in its \<^verbatim>\<open>ListToolsRequestSchema\<close> handler.\<close>

definition tool_names :: "string list" where
  "tool_names = [''generate_image'', ''edit_image'', ''generate_video'',
                 ''get_cultural_insights'', ''list_media'']"

definition standalone_tool_names :: "string list" where
  "standalone_tool_names = [''generate_image'', ''edit_image'', ''get_cultural_insights'']"

text \<open>
  The \<^verbatim>\<open>required\<close> list of each input schema (\<^verbatim>\<open>src/index.ts\<close> lines 60, 78, 102
  and 128; \<^verbatim>\<open>list_media\<close> has none; \<^verbatim>\<open>src/standalone.ts\<close> has the same lists for its
  three tools).
\<close>

definition required_params :: "string \<Rightarrow> string list" where
  "required_params name =
     (if name = ''generate_image'' then [''prompt'']
      else if name = ''edit_image'' then [''prompt'', ''image_url'']
      else if name = ''generate_video'' then [''prompt'']
      else if name = ''get_cultural_insights'' then [''city'', ''country'']
      else [])"

text \<open>A result that consists of one text block starting with \<^verbatim>\<open>Error:\<close>.\<close>

definition is_error_result :: "tool_result \<Rightarrow> bool" where
  "is_error_result r = (case content r of [Text t] \<Rightarrow> starts_with t ''Error:'' | _ \<Rightarrow> False)"

text \<open>\<^verbatim>\<open>error instanceof Error\<close>\<close>

fun is_error_instance :: "js_error \<Rightarrow> bool" where
  "is_error_instance (Exn name message) = True"
| "is_error_instance (Thrown v) = False"

text \<open>
  Two properties of a computation: it throws instances of \<^verbatim>\<open>Error\<close> only; it makes
  no call to the outside world.
\<close>

definition only_errors :: "'a io \<Rightarrow> bool" where
  "only_errors m = (\<forall>tr e. fst (m tr) = Inl e \<longrightarrow> is_error_instance e)"

definition quiet :: "'a io \<Rightarrow> bool" where
  "quiet m = (\<forall>tr. snd (m tr) = tr)"

text \<open>The status queries of the poll loop among the events of a trace.\<close>

definition is_poll :: "env \<Rightarrow> jsval \<Rightarrow> event \<Rightarrow> bool" where
  "is_poll E operationName ev = (ev = Fetch (poll_request E operationName))"

text \<open>
  The trace after \<open>n\<close> turns of the poll loop that all fell through to the increment.
\<close>

primrec after_attempts :: "env \<Rightarrow> jsval \<Rightarrow> jsval \<Rightarrow> jsval \<Rightarrow> nat \<Rightarrow> event list \<Rightarrow> event list" where
  "after_attempts E prompt aspect_ratio operationName 0 tr = tr"
| "after_attempts E prompt aspect_ratio operationName (Suc n) tr =
     snd (poll_attempt E prompt aspect_ratio operationName
            (after_attempts E prompt aspect_ratio operationName n tr))"

fun is_sleep :: "event \<Rightarrow> bool" where
  "is_sleep (Sleep ms) = True"
| "is_sleep _ = False"

fun waited :: "event list \<Rightarrow> nat" where
  "waited [] = 0"
| "waited (Sleep ms # evs) = ms + waited evs"
| "waited (ev # evs) = waited evs"

section \<open>Concrete environments\<close>

definition unavailable :: response where
  "unavailable =
     \<lparr>ok = False, status = 503, statusText = ''Service Unavailable'', content_type = ''text/plain'',
      json = Inl (Rejection ''SyntaxError'' ''Unexpected end of JSON input''), arrayBuffer = Inr []\<rparr>"

definition json_reply :: "jsval \<Rightarrow> response" where
  "json_reply v =
     \<lparr>ok = True, status = 200, statusText = ''OK'', content_type = ''application/json'',
      json = Inr v, arrayBuffer = Inr []\<rparr>"

definition bytes_reply :: "string \<Rightarrow> byte list \<Rightarrow> response" where
  "bytes_reply ct bs =
     \<lparr>ok = True, status = 200, statusText = ''OK'', content_type = ct,
      json = Inl (Rejection ''SyntaxError'' ''Unexpected token''), arrayBuffer = Inr bs\<rparr>"

text \<open>A backend that answers every request with 503, and SDKs without a network.\<close>

definition down_env :: env where
  "down_env =
     \<lparr>base_url = ''http://localhost:3000'', openai_configured = False, openai_model = [],
      fetch_reply = (\<lambda>tr req. Inr unavailable),
      generate_reply = (\<lambda>tr m c. Inl (Rejection ''Error'' ''fetch failed'')),
      chat_reply = (\<lambda>tr m s u. Inl (Rejection ''Error'' ''fetch failed'')),
      query_string = (\<lambda>ps. join ''&'' (map (\<lambda>(k, v). k @ ''='' @ v) ps)),
      render_insights = (\<lambda>city country data. Inr ''insights''),
      render_media = (\<lambda>media. Inr ''gallery'')\<rparr>"

text \<open>A machine without a network: every \<^verbatim>\<open>fetch\<close> rejects.\<close>

definition offline_env :: env where
  "offline_env = down_env\<lparr>fetch_reply := (\<lambda>tr req. Inl (Rejection ''TypeError'' ''fetch failed''))\<rparr>"

text \<open>A backend that answers every request with the given JSON value.\<close>

definition const_env :: "jsval \<Rightarrow> env" where
  "const_env v = down_env\<lparr>fetch_reply := (\<lambda>tr req. Inr (json_reply v)),
                          generate_reply := (\<lambda>tr m c. Inr v)\<rparr>"

text \<open>
  A backend for video generation: the job is \<^verbatim>\<open>op-1\<close>; the status endpoint reports
  \<^verbatim>\<open>done\<close> with a file from its \<open>k\<close>-th query on (never when \<open>k = 0\<close>), the download
  endpoint answers with the hosted URL.
\<close>

definition video_env :: "nat \<Rightarrow> env" where
  "video_env k = down_env\<lparr>fetch_reply := (\<lambda>tr req.
       if req_url req = ''http://localhost:3000/api/veo/generate''
       then Inr (json_reply (JObj [(''name'', JStr ''op-1'')]))
       else if req_url req = ''http://localhost:3000/api/veo/operation''
       then (if 0 < k \<and> k \<le> Suc (length (filter (\<lambda>ev. ev = Fetch req) tr))
             then Inr (json_reply (JObj [(''done'', JBool True), (''uris'', JArr [JStr ''files/v1''])]))
             else Inr (json_reply (JObj [(''done'', JBool False)])))
       else if req_url req = ''http://localhost:3000/api/veo/download''
       then Inr (json_reply (JObj [(''url'', JStr ''http://localhost:3000/media/v1.mp4'')]))
       else Inr unavailable)\<rparr>"

text \<open>A remote image server that labels its reply with the given content type.\<close>

definition image_host_env :: "string \<Rightarrow> byte list \<Rightarrow> env" where
  "image_host_env ct bs = down_env\<lparr>fetch_reply := (\<lambda>tr req.
       if req_method req = ''GET'' then Inr (bytes_reply ct bs) else Inr unavailable)\<rparr>"

section \<open>Base64 and data URLs: encoding then decoding\<close>

lemma index_of_nth: "distinct xs \<Longrightarrow> n < length xs \<Longrightarrow> index_of (xs ! n) xs = Some n"
proof (induction xs arbitrary: n)
  case Nil then show ?case by simp
next
  case (Cons y ys)
  show ?case
  proof (cases n)
    case 0 then show ?thesis by simp
  next
    case (Suc m)
    with Cons.prems have "m < length ys" "distinct ys" "ys ! m \<noteq> y"
      by auto
    with Cons.IH[of m] Suc show ?thesis by simp
  qed
qed

lemma b64_alphabet_distinct: "distinct b64_alphabet"
  by (simp add: b64_alphabet_def)

lemma b64_alphabet_length: "length b64_alphabet = 64"
  by (simp add: b64_alphabet_def)

lemma b64_alphabet_plain: "CHR ''='' \<notin> set b64_alphabet" "CHR ''-'' \<notin> set b64_alphabet" "CHR ''_'' \<notin> set b64_alphabet"
  by (simp_all add: b64_alphabet_def)

lemma b64_char_mem: "n < 64 \<Longrightarrow> b64_char n \<in> set b64_alphabet"
  by (simp add: b64_char_def b64_alphabet_length)

lemma b64_char_not_pad: "n < 64 \<Longrightarrow> b64_char n \<noteq> CHR ''=''"
  using b64_char_mem b64_alphabet_plain(1) by metis

lemma b64_val_char: "n < 64 \<Longrightarrow> b64_val (b64_char n) = Some n"
proof -
  assume n: "n < 64"
  then have "b64_char n \<noteq> CHR ''-''" "b64_char n \<noteq> CHR ''_''"
    using b64_char_mem b64_alphabet_plain by metis+
  then show ?thesis
    using n by (simp add: b64_val_def b64_char_def index_of_nth b64_alphabet_distinct b64_alphabet_length)
qed


lemma byte_lt: "unat (a :: byte) < 256"
  using unsigned_less[of a, where ?'a = nat] by simp

lemma sextet_bounds:
  "unat (a :: byte) div 4 < 64"
  "unat (a :: byte) mod 4 * 16 < 64"
  "unat (a :: byte) mod 4 * 16 + unat (b :: byte) div 16 < 64"
  "unat (b :: byte) mod 16 * 4 < 64"
  "unat (b :: byte) mod 16 * 4 + unat (c :: byte) div 64 < 64"
  "unat (c :: byte) mod 64 < 64"
  using byte_lt[of a] byte_lt[of b] byte_lt[of c] by simp_all

lemma regroup1: "of_nat (unat (a::byte) div 4 * 4 + (unat a mod 4 * 16 + unat (b::byte) div 16) div 16) = a"
proof -
  have "unat b div 16 < 16" using byte_lt[of b] by simp
  then have "(unat a mod 4 * 16 + unat b div 16) div 16 = unat a mod 4" by simp
  then show ?thesis by simp
qed

lemma regroup1': "of_nat (unat (a::byte) div 4 * 4 + (unat a mod 4 * 16) div 16) = a"
  by simp

lemma regroup2: "of_nat ((unat (a::byte) mod 4 * 16 + unat (b::byte) div 16) mod 16 * 16 + (unat b mod 16 * 4 + unat (c::byte) div 64) div 4) = b"
proof -
  have b: "unat b div 16 < 16" using byte_lt[of b] by simp
  have c: "unat c div 64 < 4" using byte_lt[of c] by simp
  have "(unat a mod 4 * 16 + unat b div 16) mod 16 = unat b div 16" using b by simp
  moreover have "(unat b mod 16 * 4 + unat c div 64) div 4 = unat b mod 16" using c by simp
  ultimately show ?thesis by simp
qed

lemma regroup2': "of_nat ((unat (a::byte) mod 4 * 16 + unat (b::byte) div 16) mod 16 * 16 + (unat b mod 16 * 4) div 4) = b"
proof -
  have b: "unat b div 16 < 16" using byte_lt[of b] by simp
  have "(unat a mod 4 * 16 + unat b div 16) mod 16 = unat b div 16" using b by simp
  then show ?thesis by simp
qed

lemma regroup3: "of_nat ((unat (b::byte) mod 16 * 4 + unat (c::byte) div 64) mod 4 * 64 + unat c mod 64) = c"
proof -
  have c: "unat c div 64 < 4" using byte_lt[of c] by simp
  have "(unat b mod 16 * 4 + unat c div 64) mod 4 = unat c div 64" using c by simp
  then show ?thesis by simp
qed

lemma from_base64_Cons: "n < 64 \<Longrightarrow>
  b64_sextets (b64_char n # s) = n # b64_sextets s"
  by (simp add: b64_sextets_def b64_char_not_pad b64_val_char map_filter_simps)

lemma from_base64_pad: "b64_sextets (CHR ''='' # s) = []"
  by (simp add: b64_sextets_def map_filter_simps)
lemma from_base64_Nil: "b64_sextets [] = []"
  by (simp add: b64_sextets_def map_filter_simps)

lemma group3:
  "from_sextets (unat (a::byte) div 4 # (unat a mod 4 * 16 + unat (b::byte) div 16) #
      (unat b mod 16 * 4 + unat (c::byte) div 64) # unat c mod 64 # rest) = a # b # c # from_sextets rest"
  by (simp only: from_sextets.simps regroup1 regroup2 regroup3 append.simps)

lemma group2:
  "from_sextets [unat (a::byte) div 4, unat a mod 4 * 16 + unat (b::byte) div 16, unat b mod 16 * 4] = [a, b]"
  by (simp only: from_sextets.simps regroup1 regroup2')

lemma group1:
  "from_sextets [unat (a::byte) div 4, unat a mod 4 * 16] = [a]"
  by (simp only: from_sextets.simps regroup1')

lemma base64_roundtrip: "from_base64 (to_base64 bs) = bs"
proof (induction bs rule: to_base64.induct)
  case 1
  show ?case by (simp add: from_base64_def from_base64_Nil)
next
  case (2 a)
  show ?case
    by (simp only: from_base64_def to_base64.simps from_base64_Cons from_base64_pad sextet_bounds group1)
next
  case (3 a b)
  show ?case
    by (simp only: from_base64_def to_base64.simps from_base64_Cons from_base64_pad sextet_bounds group2)
next
  case (4 a b c rest)
  then show ?case
    by (simp only: from_base64_def to_base64.simps append.simps from_base64_Cons sextet_bounds group3)
qed






lemma split_comma_none: "CHR '','' \<notin> set t \<Longrightarrow> split_comma t = [t]"
  by (induction t) auto


lemma split_header_none: "CHR '','' \<notin> set s \<Longrightarrow> split_header s = (s, None)"
  by (simp add: split_header_def split_comma_none)














lemma file_type_of_png: "file_type_of ''image/png'' = ''image/png''"
  by (simp add: file_type_of_def printable_def ascii_lower_def is_upper_def)








section \<open>The handlers: dispatch and validation\<close>

lemmas io_defs = io_bind_def io_return_def io_throw_def io_lift_def io_await_def io_String_def
  try_catch_def do_fetch_def do_sleep_def do_generate_def do_chat_def

lemma thrown_of_error: "is_error_instance (thrown_of x)"
  by (cases x) simp

lemma settled_error: "settled r = Inl e \<Longrightarrow> is_error_instance e"
  by (cases r) (auto simp: settled_def thrown_of_error)

lemma js_String_error:
  "js_String v = Inl e \<Longrightarrow> is_error_instance e"
  "js_join vs = Inl e \<Longrightarrow> is_error_instance e"
  by (induction v and vs arbitrary: e and e rule: js_String_js_join.induct)
     (auto simp: cannot_convert_def split: sum.splits if_splits)

lemma quiet_rules:
  "quiet (io_return x)" "quiet (io_throw e)" "quiet (io_lift r)" "quiet (io_await w)"
  "quiet (io_String v)"
  by (simp_all add: quiet_def io_defs)

lemma quiet_bind: "quiet m \<Longrightarrow> (\<And>x. quiet (f x)) \<Longrightarrow> quiet (io_bind m f)"
  by (auto simp: quiet_def io_bind_def split: prod.splits sum.splits) (metis snd_conv)+

lemma quiet_if: "quiet a \<Longrightarrow> quiet b \<Longrightarrow> quiet (if c then a else b)"
  by simp

lemma fetch_then_quiet:
  "(\<And>x. quiet (f x)) \<Longrightarrow> snd (io_bind (do_fetch E req) f tr) = tr @ [Fetch req]"
  by (auto simp: quiet_def io_bind_def do_fetch_def split: prod.splits sum.splits)

lemma generate_then_quiet:
  "(\<And>x. quiet (f x)) \<Longrightarrow>
   snd (io_bind (do_generate E modelId contents) f tr) = tr @ [GenerateContent modelId contents]"
  by (auto simp: quiet_def io_bind_def do_generate_def split: prod.splits sum.splits)

lemma only_errors_rules:
  "only_errors (io_return x)" "is_error_instance e \<Longrightarrow> only_errors (io_throw e)"
  "only_errors (io_await w)" "only_errors (io_String v)"
  "only_errors (do_fetch E req)" "only_errors (do_generate E modelId contents)"
  "only_errors (do_chat E model sys user)"
  by (auto simp: only_errors_def io_defs dest: settled_error js_String_error)

lemma only_errors_bind: "only_errors m \<Longrightarrow> (\<And>x. only_errors (f x)) \<Longrightarrow> only_errors (io_bind m f)"
  by (auto simp: only_errors_def io_bind_def split: prod.splits sum.splits) (metis fst_conv)+

lemma only_errors_if: "only_errors a \<Longrightarrow> only_errors b \<Longrightarrow> only_errors (if c then a else b)"
  by simp

lemma error_text_is_error: "is_error_result (text_result (''Error: '' @ m))"
  by (simp add: is_error_result_def text_result_def starts_with_def)

lemma try_catch_total:
  "\<exists>r. fst (try_catch m (\<lambda>error. io_return (h error)) tr) = Inr r"
  by (simp add: try_catch_def io_return_def split: prod.splits sum.splits)

lemma try_catch_Inl:
  "fst (m tr) = Inl e \<Longrightarrow> try_catch m h tr = h e (snd (m tr))"
  by (cases "m tr") (simp add: try_catch_def)

lemma try_catch_Inr:
  "fst (m tr) = Inr r \<Longrightarrow> try_catch m h tr = (Inr r, snd (m tr))"
  by (cases "m tr") (simp add: try_catch_def)

lemma try_catch_trace: "snd (try_catch m (\<lambda>error. io_return (h error)) tr) = snd (m tr)"
  by (cases "m tr") (simp add: try_catch_def io_return_def split: sum.splits)

lemma standalone_catch_error:
  "standalone_catch (Exn name message) tr
     = (Inr (text_result (''Error: '' @ (if message \<noteq> [] then message else name))), tr)"
  by (simp add: standalone_catch_def io_defs)

lemma tool_switch_unknown:
  "name \<notin> set tool_names \<Longrightarrow> tool_switch E name args tr = (Inl (Exn ''Error'' (''Unknown tool: '' @ name)), tr)"
  by (simp add: tool_switch_def tool_names_def io_throw_def)

lemma standalone_tool_switch_unknown:
  "name \<notin> set standalone_tool_names \<Longrightarrow>
   standalone_tool_switch E name args tr = (Inl (Exn ''Error'' (''Unknown tool: '' @ name)), tr)"
  by (simp add: standalone_tool_switch_def standalone_tool_names_def io_throw_def)

text \<open>
  Claim C2. A tool name outside the registered names makes the handler return the single
  text \<^verbatim>\<open>Error: Unknown tool: <name>\<close>, and the trace is left as it was: no fetch and
  no SDK call is made. This holds for the handler of \<^verbatim>\<open>src/index.ts\<close> and for the one
  of \<^verbatim>\<open>src/standalone.ts\<close>.
\<close>

theorem unknown_tool_rejected:
  "(name \<notin> set tool_names \<longrightarrow>
      callTool E name args tr = (Inr (text_result (''Error: Unknown tool: '' @ name)), tr)
      \<and> is_error_result (text_result (''Error: Unknown tool: '' @ name)))
   \<and> (name \<notin> set standalone_tool_names \<longrightarrow>
      standalone_callTool E name args tr = (Inr (text_result (''Error: Unknown tool: '' @ name)), tr))"
  using error_text_is_error[of "''Unknown tool: '' @ name"]
  by (simp add: callTool_def standalone_callTool_def try_catch_Inl io_return_def
      standalone_catch_error tool_switch_unknown standalone_tool_switch_unknown)

theorem unknown_tool_rejected_witness:
  "''delete_media'' \<notin> set tool_names
   \<and> callTool down_env ''delete_media'' (JObj [(''id'', JNum 7)]) []
       = (Inr (text_result ''Error: Unknown tool: delete_media''), [])
   \<and> ''list_media'' \<notin> set standalone_tool_names
   \<and> standalone_callTool down_env ''list_media'' (JObj []) []
       = (Inr (text_result ''Error: Unknown tool: list_media''), [])"
  using unknown_tool_rejected[of "''delete_media''" down_env "JObj [(''id'', JNum 7)]" "[]"]
        unknown_tool_rejected[of "''list_media''" down_env "JObj []" "[]"]
  by (simp add: tool_names_def standalone_tool_names_def)

lemma only_errors_pure:
  "only_errors (io_lift (find_inline parts))" "only_errors (io_lift (member v k))"
  "only_errors (io_lift (destructure v))" "only_errors (io_lift (decode_data_url s))"
  by (auto simp: only_errors_def io_lift_def find_inline_def member_def destructure_def
      decode_data_url_def buffer_from_undefined_def Let_def
      split: jsval.splits if_splits prod.splits option.splits)

lemma inline_data_url_errors: "only_errors (inline_data_url d)"
  unfolding inline_data_url_def
  by (intro only_errors_bind only_errors_rules)

lemma generate_inline_errors: "only_errors (generate_inline E prompt heading)"
  unfolding generate_inline_def
  by (intro only_errors_bind only_errors_if only_errors_rules only_errors_pure
        inline_data_url_errors) simp_all

lemma standalone_generateImage_errors: "only_errors (standalone_generateImage E args)"
  unfolding standalone_generateImage_def generate_image_body_def Let_def
  by (intro only_errors_if only_errors_rules generate_inline_errors) simp_all

lemma standalone_edit_source_errors: "only_errors (standalone_edit_source E image_url)"
  unfolding standalone_edit_source_def
  by (intro only_errors_bind only_errors_if only_errors_rules)
     (simp_all add: only_errors_rules split: prod.splits)

lemma standalone_editImage_errors: "only_errors (standalone_editImage E args)"
  unfolding standalone_editImage_def Let_def
  by (intro only_errors_if only_errors_bind only_errors_rules only_errors_pure
        standalone_edit_source_errors inline_data_url_errors)
     (simp_all add: split_def only_errors_bind only_errors_if only_errors_rules only_errors_pure
        inline_data_url_errors)

lemma insights_user_prompt_errors: "only_errors (insights_user_prompt c n b t)"
  unfolding insights_user_prompt_def
  by (intro only_errors_bind only_errors_rules)

lemma standalone_getCulturalInsights_errors: "only_errors (standalone_getCulturalInsights E args)"
  unfolding standalone_getCulturalInsights_def Let_def
  by (intro only_errors_if only_errors_bind only_errors_rules only_errors_pure
        insights_user_prompt_errors) simp_all

lemma standalone_tool_switch_errors: "only_errors (standalone_tool_switch E name args)"
  unfolding standalone_tool_switch_def
  by (intro only_errors_if only_errors_rules standalone_generateImage_errors
        standalone_editImage_errors standalone_getCulturalInsights_errors) simp_all

text \<open>
  Claim C3. The handler always returns a result and never throws: whatever the
  \<^verbatim>\<open>switch\<close> and the tool it runs raise (a failed destructuring, a rejected fetch,
  an error status, unparsable JSON, an error field, a missing image, a value that cannot
  be converted to a string, an unknown tool) comes back as the single text block
  \<^verbatim>\<open>Error: <message>\<close>, with the message that the \<^verbatim>\<open>catch\<close> clause reads off the
  thrown value. In \<^verbatim>\<open>src/standalone.ts\<close> everything the \<^verbatim>\<open>switch\<close> throws is an
  instance of \<^verbatim>\<open>Error\<close>, on which the \<^verbatim>\<open>catch\<close> clause cannot fail.
\<close>

theorem dispatch_never_throws:
  "(\<exists>r. fst (callTool E name args tr) = Inr r)
   \<and> (\<exists>r. fst (standalone_callTool E name args tr) = Inr r)
   \<and> (fst (tool_switch E name args tr) = Inl e \<longrightarrow>
        fst (callTool E name args tr) = Inr (text_result (''Error: '' @ catch_message e))
        \<and> is_error_result (text_result (''Error: '' @ catch_message e)))
   \<and> (fst (standalone_tool_switch E name args tr) = Inl e \<longrightarrow>
        (\<exists>m. standalone_catch_message e = Inr m
           \<and> fst (standalone_callTool E name args tr) = Inr (text_result (''Error: '' @ m))
           \<and> is_error_result (text_result (''Error: '' @ m))))"
proof -
  have index: "\<exists>r. fst (callTool E name args tr) = Inr r"
    by (simp add: callTool_def try_catch_total)
  have caught: "fst (standalone_tool_switch E name args tr) = Inl x \<Longrightarrow>
      \<exists>m. standalone_catch_message x = Inr m
        \<and> fst (standalone_callTool E name args tr) = Inr (text_result (''Error: '' @ m))
        \<and> is_error_result (text_result (''Error: '' @ m))" for x
  proof -
    assume t: "fst (standalone_tool_switch E name args tr) = Inl x"
    with standalone_tool_switch_errors[of E name args] have "is_error_instance x"
      by (auto simp: only_errors_def)
    then obtain n msg where x: "x = Exn n msg" by (cases x) simp_all
    show ?thesis
      using t error_text_is_error[of "if msg \<noteq> [] then msg else n"]
      by (simp add: x standalone_callTool_def try_catch_Inl standalone_catch_error)
  qed
  have standalone: "\<exists>r. fst (standalone_callTool E name args tr) = Inr r"
  proof (cases "fst (standalone_tool_switch E name args tr)")
    case (Inl x)
    from caught[OF this] show ?thesis by blast
  next
    case (Inr r)
    then show ?thesis by (simp add: standalone_callTool_def try_catch_Inr)
  qed
  show ?thesis
    using index standalone caught[of e] error_text_is_error[of "catch_message e"]
    by (simp add: callTool_def try_catch_Inl io_return_def)
qed

theorem dispatch_never_throws_witness:
  "fst (tool_switch down_env ''generate_image'' (JObj [(''prompt'', JStr ''a red fox'')]) [])
     = Inl (Exn ''Error'' ''API error: 503 Service Unavailable'')
   \<and> fst (callTool down_env ''generate_image'' (JObj [(''prompt'', JStr ''a red fox'')]) [])
     = Inr (text_result ''Error: API error: 503 Service Unavailable'')
   \<and> fst (standalone_tool_switch down_env ''generate_image'' (JObj [(''prompt'', JStr ''a red fox'')]) [])
     = Inl (Exn ''Error'' ''fetch failed'')
   \<and> fst (standalone_callTool down_env ''generate_image'' (JObj [(''prompt'', JStr ''a red fox'')]) [])
     = Inr (text_result ''Error: fetch failed'')"
proof -
  have a: "fst (tool_switch down_env ''generate_image'' (JObj [(''prompt'', JStr ''a red fox'')]) [])
     = Inl (Exn ''Error'' ''API error: 503 Service Unavailable'')"
    by (simp add: tool_switch_def generateImage_def io_defs settled_def destructure_def nullish_def
        down_env_def unavailable_def post_json_def opt_member_def field_or_def Let_def)
       code_simp
  have b: "fst (standalone_tool_switch down_env ''generate_image'' (JObj [(''prompt'', JStr ''a red fox'')]) [])
     = Inl (Exn ''Error'' ''fetch failed'')"
    by (simp add: standalone_tool_switch_def standalone_generateImage_def generate_image_body_def
        generate_inline_def io_defs settled_def js_or_def down_env_def opt_member_def field_or_def Let_def)
  show ?thesis
    using a b
      dispatch_never_throws[of down_env "''generate_image''" "JObj [(''prompt'', JStr ''a red fox'')]" "[]"
        "Exn ''Error'' ''API error: 503 Service Unavailable''"]
      dispatch_never_throws[of down_env "''generate_image''" "JObj [(''prompt'', JStr ''a red fox'')]" "[]"
        "Exn ''Error'' ''fetch failed''"]
    by simp
qed

lemma destructure_obj: "\<not> nullish a \<Longrightarrow> destructure a = Inr a"
  by (simp add: destructure_def)

lemma io_bind_lift_Inr: "io_bind (io_lift (Inr x)) f = f x"
  by (simp add: io_bind_def io_lift_def)

lemma io_bind_String: "js_String v = Inr s \<Longrightarrow> io_bind (io_String v) f = f s"
  by (simp add: io_bind_def io_lift_def io_String_def)

lemma field_or_imagen:
  "(field_or a ''model'' (JStr ''gemini'') = JStr ''imagen'') = (opt_member a ''model'' = JStr ''imagen'')"
  by (simp add: field_or_def)

lemma image_url_of_quiet: "quiet (image_url_of data)"
  unfolding image_url_of_def by (intro quiet_if quiet_bind quiet_rules)

lemma inline_data_url_quiet: "quiet (inline_data_url d)"
  unfolding inline_data_url_def by (intro quiet_bind quiet_rules)

lemma generateImage_trace:
  assumes "\<not> nullish args"
  shows "snd (generateImage E args tr) = tr @ [Fetch (post_json
      (base_url E @ (if opt_member args ''model'' = JStr ''imagen'' then ''/api/imagen/generate''
                     else ''/api/gemini/generate''))
      (JObj [(''prompt'', opt_member args ''prompt'')]))]"
  unfolding generateImage_def Let_def destructure_obj[OF assms] io_bind_lift_Inr field_or_imagen
  by (intro fetch_then_quiet quiet_if quiet_bind quiet_rules image_url_of_quiet)

lemma generate_inline_trace:
  "snd (generate_inline E prompt heading tr)
     = tr @ [GenerateContent image_model_id (user_contents [JObj [(''text'', prompt)]])]"
  unfolding generate_inline_def
  by (intro generate_then_quiet quiet_if quiet_bind quiet_rules inline_data_url_quiet)

text \<open>
  Claim C1 at the input on which \<^verbatim>\<open>src/index.ts\<close> breaks it: \<^verbatim>\<open>generate_image\<close>
  called with the empty argument object. The schema lists \<^verbatim>\<open>prompt\<close> as required, yet
  the handler posts the request to the backend, with no prompt in the body.
\<close>

theorem missing_prompt_is_forwarded:
  "snd (callTool E ''generate_image'' (JObj []) tr)
     = tr @ [Fetch (post_json (base_url E @ ''/api/gemini/generate'') (JObj [(''prompt'', JUndefined)]))]"
proof -
  have "snd (generateImage E (JObj []) tr)
     = tr @ [Fetch (post_json (base_url E @ ''/api/gemini/generate'') (JObj [(''prompt'', JUndefined)]))]"
    using generateImage_trace[of "JObj []" E tr] by (simp add: nullish_def opt_member_def)
  then show ?thesis
    by (simp add: callTool_def tool_switch_def try_catch_trace)
qed

text \<open>
  The handlers of \<^verbatim>\<open>src/standalone.ts\<close> do check: each tool tests its required
  arguments first and throws before any call.
\<close>

lemma standalone_missing_prompt:
  "opt_member (js_or args (JObj [])) ''prompt'' = JUndefined \<Longrightarrow>
   standalone_tool_switch E ''generate_image'' args tr = (Inl (Exn ''Error'' ''Missing prompt''), tr)"
  by (simp add: standalone_tool_switch_def standalone_generateImage_def generate_image_body_def
      Let_def io_throw_def)

lemma standalone_missing_edit:
  "opt_member (js_or args (JObj [])) ''prompt'' = JUndefined
     \<or> opt_member (js_or args (JObj [])) ''image_url'' = JUndefined \<Longrightarrow>
   standalone_tool_switch E ''edit_image'' args tr
     = (Inl (Exn ''Error'' ''Missing prompt or image_url''), tr)"
  by (auto simp add: standalone_tool_switch_def standalone_editImage_def Let_def io_throw_def)

lemma standalone_missing_place:
  "opt_member (js_or args (JObj [])) ''city'' = JUndefined
     \<or> opt_member (js_or args (JObj [])) ''country'' = JUndefined \<Longrightarrow>
   standalone_tool_switch E ''get_cultural_insights'' args tr
     = (Inl (Exn ''Error'' ''Missing city or country''), tr)"
  by (auto simp add: standalone_tool_switch_def standalone_getCulturalInsights_def Let_def io_throw_def)

lemma standalone_missing_required:
  assumes "name \<in> set standalone_tool_names" "k \<in> set (required_params name)"
    "opt_member (js_or args (JObj [])) k = JUndefined"
  shows "\<exists>m. standalone_callTool E name args tr = (Inr (text_result (''Error: '' @ m)), tr)"
proof -
  from assms(1) consider "name = ''generate_image''" | "name = ''edit_image''"
    | "name = ''get_cultural_insights''"
    by (auto simp: standalone_tool_names_def)
  then have "\<exists>m. m \<noteq> [] \<and> standalone_tool_switch E name args tr = (Inl (Exn ''Error'' m), tr)"
  proof cases
    case 1
    with assms(2,3) show ?thesis
      using standalone_missing_prompt[of args E tr] by (simp add: required_params_def)
  next
    case 2
    with assms(2,3) show ?thesis
      using standalone_missing_edit[of args E tr] by (auto simp add: required_params_def)
  next
    case 3
    with assms(2,3) show ?thesis
      using standalone_missing_place[of args E tr] by (auto simp add: required_params_def)
  qed
  then obtain m where "m \<noteq> []" "standalone_tool_switch E name args tr = (Inl (Exn ''Error'' m), tr)"
    by blast
  then have "standalone_callTool E name args tr = (Inr (text_result (''Error: '' @ m)), tr)"
    by (simp add: standalone_callTool_def try_catch_def standalone_catch_error)
  then show ?thesis by blast
qed

text \<open>
  Claim C7 at the input on which \<^verbatim>\<open>src/index.ts\<close> breaks it: the backend answers
  \<^verbatim>\<open>generate_image\<close> with status 200 and the JSON object \<^verbatim>\<open>{}\<close>, which has neither
  an error field nor an image. The handler reports success, with an image URL made of
  two \<^verbatim>\<open>undefined\<close>.
\<close>

theorem missing_payload_reported_as_success:
  "callTool (const_env (JObj [])) ''generate_image'' (JObj [(''prompt'', JStr ''a red fox'')]) []
     = (Inr (text_result (check_mark @ '' Image generated successfully using gemini'' @ nl @ nl
               @ ''Prompt: a red fox'' @ nl @ nl @ ''Image URL: data:undefined;base64,undefined'')),
        [Fetch (post_json ''http://localhost:3000/api/gemini/generate'' (JObj [(''prompt'', JStr ''a red fox'')]))])"
  by (simp add: callTool_def tool_switch_def generateImage_def io_defs settled_def destructure_def
      nullish_def const_env_def down_env_def json_reply_def member_def opt_member_def field_or_def
      Let_def image_url_of_def)

text \<open>
  \<^verbatim>\<open>src/standalone.ts\<close> throws \<^verbatim>\<open>No image generated\<close> when the reply holds no inline
  image.
\<close>

lemma standalone_missing_payload:
  "generate_reply E tr image_model_id (user_contents [JObj [(''text'', prompt)]]) = Inr result \<Longrightarrow>
   find_inline (parts_of result) = Inr inlineData \<Longrightarrow>
   \<not> truthy (opt_member inlineData ''data'') \<Longrightarrow>
   fst (generate_inline E prompt heading tr) = Inl (Exn ''Error'' ''No image generated'')"
  by (simp add: generate_inline_def io_defs settled_def)

section \<open>The handlers: routing of models and images\<close>

lemma generateImage_errors:
  assumes "v \<noteq> JStr ''imagen''" "js_String v = Inr t"
  shows "(fst (generateImage E (JObj [(''prompt'', p), (''model'', v)]) tr) = Inl e)
   = (fst (generateImage E (JObj [(''prompt'', p), (''model'', JStr ''gemini'')]) tr) = Inl e)"
proof -
  have f: "field_or (JObj [(''prompt'', p), (''model'', v)]) ''model'' (JStr ''gemini'') \<noteq> JStr ''imagen''"
    "js_String (field_or (JObj [(''prompt'', p), (''model'', v)]) ''model'' (JStr ''gemini'')) = Inr t
     \<or> field_or (JObj [(''prompt'', p), (''model'', v)]) ''model'' (JStr ''gemini'') = JStr ''gemini''"
    using assms by (auto simp: field_or_def opt_member_def)
  show ?thesis
    using f
    by (auto simp add: generateImage_def io_defs destructure_def nullish_def field_or_def opt_member_def
        Let_def split: sum.splits prod.splits if_splits)
qed

lemma standalone_generateImage_route:
  "truthy p \<Longrightarrow>
   standalone_generateImage E (JObj [(''prompt'', p), (''model'', v)])
     = generate_inline E p (if v = JStr ''imagen'' then '' Image (Gemini fallback for Imagen)''
                            else '' Gemini image'')"
  by (simp add: standalone_generateImage_def generate_image_body_def js_or_def field_or_def
      opt_member_def Let_def)

lemma hosted_schema:
  "generate_image_schema (JObj [(''prompt'', JStr s), (''model'', v)])
     = (if v = JUndefined \<or> v = JStr ''gemini''
        then Some (JObj [(''prompt'', JStr s), (''model'', JStr ''gemini''), (''aspect_ratio'', JStr ''16:9'')])
        else if v = JStr ''imagen''
        then Some (JObj [(''prompt'', JStr s), (''model'', JStr ''imagen''), (''aspect_ratio'', JStr ''16:9'')])
        else None)"
  by (cases v) (auto simp: generate_image_schema_def zod_string_def zod_enum_default_def opt_member_def)

lemma hosted_callback_route:
  "s \<noteq> [] \<Longrightarrow>
   hosted_generate_image_callback E
       (JObj [(''prompt'', JStr s), (''model'', JStr m), (''aspect_ratio'', JStr ''16:9'')])
     = try_catch
         (generate_inline E (JStr s) (if m = ''imagen'' then '' Image (Gemini fallback for Imagen)''
                                      else '' Gemini image''))
         standalone_catch"
  by (simp add: hosted_generate_image_callback_def generate_image_body_def destructure_def nullish_def
      io_bind_lift_Inr field_or_def opt_member_def)

text \<open>
  The input schema of the hosted variant refuses a model outside its enumeration: the
  callback is not run.
\<close>

theorem generate_image_routing_counterexample:
  "hosted_generate_image down_env (JObj [(''prompt'', JStr ''a red fox''), (''model'', JStr ''dall-e'')])
     = Invalid"
  by (simp add: hosted_generate_image_def hosted_schema)

text \<open>
  Claim C9, as amended. In \<^verbatim>\<open>src/index.ts\<close> the request goes to
  \<^verbatim>\<open>/api/imagen/generate\<close> exactly when the \<open>model\<close> argument is the string
  \<^verbatim>\<open>imagen\<close>, and to \<^verbatim>\<open>/api/gemini/generate\<close> for every other value, in the
  enumeration or not, and when it is absent; no value of \<open>model\<close> stops the request, and
  a call with any other value that converts to a string throws exactly when the call
  with \<^verbatim>\<open>gemini\<close> throws. In \<^verbatim>\<open>src/standalone.ts\<close> a call with a prompt makes the one
  \<^verbatim>\<open>generateContent\<close> call, under the fallback heading when \<open>model\<close> is \<^verbatim>\<open>imagen\<close>
  and under the Gemini heading for every other value. In the hosted variant the schema
  lets only an absent \<open>model\<close>, \<^verbatim>\<open>gemini\<close> and \<^verbatim>\<open>imagen\<close> through to the callback,
  which routes them in the same way; every other value is refused as invalid.
\<close>

theorem generate_image_routing:
  "(\<not> nullish args \<longrightarrow>
      snd (generateImage E args tr) = tr @ [Fetch (post_json
        (base_url E @ (if opt_member args ''model'' = JStr ''imagen'' then ''/api/imagen/generate''
                       else ''/api/gemini/generate''))
        (JObj [(''prompt'', opt_member args ''prompt'')]))])
   \<and> (v \<noteq> JStr ''imagen'' \<longrightarrow> js_String v = Inr t \<longrightarrow>
        (fst (generateImage E (JObj [(''prompt'', p), (''model'', v)]) tr) = Inl e)
        = (fst (generateImage E (JObj [(''prompt'', p), (''model'', JStr ''gemini'')]) tr) = Inl e))
   \<and> (truthy p \<longrightarrow>
        standalone_generateImage E (JObj [(''prompt'', p), (''model'', v)])
          = generate_inline E p (if v = JStr ''imagen'' then '' Image (Gemini fallback for Imagen)''
                                 else '' Gemini image''))
   \<and> snd (generate_inline E p heading tr)
        = tr @ [GenerateContent image_model_id (user_contents [JObj [(''text'', p)]])]
   \<and> hosted_generate_image E (JObj [(''prompt'', JStr s), (''model'', v)])
        = (if v = JUndefined \<or> v = JStr ''gemini''
           then Valid (hosted_generate_image_callback E
                  (JObj [(''prompt'', JStr s), (''model'', JStr ''gemini''), (''aspect_ratio'', JStr ''16:9'')]))
           else if v = JStr ''imagen''
           then Valid (hosted_generate_image_callback E
                  (JObj [(''prompt'', JStr s), (''model'', JStr ''imagen''), (''aspect_ratio'', JStr ''16:9'')]))
           else Invalid)
   \<and> (s \<noteq> [] \<longrightarrow>
        hosted_generate_image_callback E
            (JObj [(''prompt'', JStr s), (''model'', JStr m), (''aspect_ratio'', JStr ''16:9'')])
          = try_catch
              (generate_inline E (JStr s) (if m = ''imagen'' then '' Image (Gemini fallback for Imagen)''
                                           else '' Gemini image''))
              standalone_catch)"
  using generateImage_trace[of args E tr] generateImage_errors[of v t E p tr e]
    standalone_generateImage_route[of p E v] generate_inline_trace[of E p heading tr]
    hosted_callback_route[of s E m]
  by (simp add: hosted_generate_image_def hosted_schema)

theorem generate_image_routing_witness:
  "snd (generateImage down_env (JObj [(''prompt'', JStr ''a red fox''), (''model'', JStr ''dall-e'')]) [])
     = [Fetch (post_json ''http://localhost:3000/api/gemini/generate'' (JObj [(''prompt'', JStr ''a red fox'')]))]
   \<and> snd (generateImage down_env (JObj [(''prompt'', JStr ''a red fox''), (''model'', JStr ''imagen'')]) [])
     = [Fetch (post_json ''http://localhost:3000/api/imagen/generate'' (JObj [(''prompt'', JStr ''a red fox'')]))]
   \<and> (fst (generateImage down_env (JObj [(''prompt'', JStr ''a red fox''), (''model'', JStr ''dall-e'')]) [])
         = Inl (Exn ''Error'' ''API error: 503 Service Unavailable''))
     = (fst (generateImage down_env (JObj [(''prompt'', JStr ''a red fox''), (''model'', JStr ''gemini'')]) [])
         = Inl (Exn ''Error'' ''API error: 503 Service Unavailable''))
   \<and> standalone_generateImage down_env (JObj [(''prompt'', JStr ''a red fox''), (''model'', JStr ''dall-e'')])
     = generate_inline down_env (JStr ''a red fox'') '' Gemini image''
   \<and> standalone_generateImage down_env (JObj [(''prompt'', JStr ''a red fox''), (''model'', JStr ''imagen'')])
     = generate_inline down_env (JStr ''a red fox'') '' Image (Gemini fallback for Imagen)''
   \<and> hosted_generate_image_callback down_env
        (JObj [(''prompt'', JStr ''a red fox''), (''model'', JStr ''imagen''), (''aspect_ratio'', JStr ''16:9'')])
     = try_catch (generate_inline down_env (JStr ''a red fox'') '' Image (Gemini fallback for Imagen)'')
         standalone_catch"
proof -
  let ?a = "\<lambda>m. JObj [(''prompt'', JStr ''a red fox''), (''model'', JStr m)]"
  have nn: "\<not> nullish (?a m)" for m by (simp add: nullish_def)
  have f: "opt_member (?a m) ''model'' = JStr m" "opt_member (?a m) ''prompt'' = JStr ''a red fox''" for m
    by (simp_all add: opt_member_def)
  have b: "base_url down_env = ''http://localhost:3000''" by (simp add: down_env_def)
  have str: "js_String (JStr ''dall-e'') = Inr ''dall-e''" by simp
  show ?thesis
    using generate_image_routing[of "?a ''dall-e''" down_env "[]" "JStr ''dall-e''" "''dall-e''"
        "JStr ''a red fox''" "Exn ''Error'' ''API error: 503 Service Unavailable''" _ "''a red fox''" "''imagen''"]
      generate_image_routing[of "?a ''imagen''" down_env "[]" "JStr ''imagen''" "''dall-e''"
        "JStr ''a red fox''" _ _ "''a red fox''" "''imagen''"]
      nn f b str
    by simp
qed

lemma edit_source_remote:
  assumes "js_String image_url = Inr u" "\<not> starts_with u ''data:''"
    "fetch_reply E tr (get_url u) = Inr resp" "ok resp" "arrayBuffer resp = Inr bytes"
  shows "edit_source E image_url tr
     = (Inr \<lparr>file_bytes = bytes, file_name = ''image.png'', file_type = ''image/png''\<rparr>,
        tr @ [Fetch (get_url u)])"
    and "standalone_edit_source E image_url tr
     = (Inr (JStr (to_base64 bytes), ''image/png''), tr @ [Fetch (get_url u)])"
  using assms
  by (simp_all add: edit_source_def standalone_edit_source_def io_defs settled_def new_file_def
      file_type_of_png)

lemma edit_source_data:
  assumes "js_String image_url = Inr u" "starts_with u ''data:''"
    "split_header u = (header, Some b64)"
  shows "edit_source E image_url tr
     = (Inr \<lparr>file_bytes = from_base64 b64, file_name = ''image.png'',
             file_type = file_type_of (header_mime header)\<rparr>, tr)"
    and "standalone_edit_source E image_url tr = (Inr (JStr b64, header_mime header), tr)"
  using assms
  by (simp_all add: edit_source_def standalone_edit_source_def decode_data_url_def new_file_def io_defs)

lemma editImage_upload:
  assumes "\<not> nullish args" "edit_source E (opt_member args ''image_url'') tr = (Inr f, tr')"
    "js_String (opt_member args ''prompt'') = Inr p"
  shows "snd (editImage E args tr)
     = tr' @ [Fetch (post_form (base_url E @ ''/api/gemini/edit'')
          [(''prompt'', FText p), (''imageFile'', FFile f)])]"
proof -
  have rest: "snd (io_bind (do_fetch E req) k tr') = tr' @ [Fetch req]"
    if "\<And>x. quiet (k x)" for req and k :: "response \<Rightarrow> tool_result io"
    using that by (rule fetch_then_quiet)
  show ?thesis
    unfolding editImage_def Let_def destructure_obj[OF assms(1)] io_bind_lift_Inr
    apply (subst io_bind_def)
    apply (simp only: assms(2) prod.case sum.case io_bind_String[OF assms(3)])
    apply (intro fetch_then_quiet quiet_if quiet_bind quiet_rules image_url_of_quiet)
    done
qed

lemma standalone_editImage_call:
  assumes "truthy p" "truthy iu" "standalone_edit_source E iu tr = (Inr (b, m), tr')"
  shows "snd (standalone_editImage E (JObj [(''prompt'', p), (''image_url'', iu)]) tr)
     = tr' @ [GenerateContent image_model_id (edit_contents p b m)]"
proof -
  have a: "opt_member (js_or (JObj [(''prompt'', p), (''image_url'', iu)]) (JObj [])) ''prompt'' = p"
    "opt_member (js_or (JObj [(''prompt'', p), (''image_url'', iu)]) (JObj [])) ''image_url'' = iu"
    by (simp_all add: js_or_def opt_member_def)
  show ?thesis
    unfolding standalone_editImage_def Let_def a
    apply (simp only: assms(1,2) not_True_eq_False simp_thms if_False)
    apply (subst io_bind_def)
    apply (simp only: assms(3) prod.case sum.case)
    apply (intro generate_then_quiet quiet_if quiet_bind quiet_rules inline_data_url_quiet)
    done
qed

text \<open>
  Claim C10. When the source image of \<^verbatim>\<open>edit_image\<close> is a remote URL, the fetched
  bytes are tagged \<^verbatim>\<open>image/png\<close> whatever reply (and so whatever content type) the
  remote server gave, in \<^verbatim>\<open>src/index.ts\<close> and in \<^verbatim>\<open>src/standalone.ts\<close>; only the
  data-URL branch takes the mime type from the header of the URL (in
  \<^verbatim>\<open>src/index.ts\<close> as the \<^verbatim>\<open>File\<close> normalises it). The file, with that tag, is what
  \<^verbatim>\<open>editImage\<close> of \<^verbatim>\<open>src/index.ts\<close> uploads, and the base64 text with that mime type
  is what \<^verbatim>\<open>editImage\<close> of \<^verbatim>\<open>src/standalone.ts\<close> hands to \<^verbatim>\<open>generateContent\<close>.
\<close>

theorem remote_image_tagged_png:
  "(js_String image_url = Inr u \<longrightarrow> \<not> starts_with u ''data:'' \<longrightarrow>
      fetch_reply E tr (get_url u) = Inr resp \<longrightarrow> ok resp \<longrightarrow>
      arrayBuffer resp = Inr bytes \<longrightarrow>
        edit_source E image_url tr
          = (Inr \<lparr>file_bytes = bytes, file_name = ''image.png'', file_type = ''image/png''\<rparr>,
             tr @ [Fetch (get_url u)])
        \<and> standalone_edit_source E image_url tr
          = (Inr (JStr (to_base64 bytes), ''image/png''), tr @ [Fetch (get_url u)]))
   \<and> (js_String image_url = Inr u \<longrightarrow> starts_with u ''data:'' \<longrightarrow>
      split_header u = (header, Some b64) \<longrightarrow>
        edit_source E image_url tr
          = (Inr \<lparr>file_bytes = from_base64 b64, file_name = ''image.png'',
                  file_type = file_type_of (header_mime header)\<rparr>, tr)
        \<and> standalone_edit_source E image_url tr = (Inr (JStr b64, header_mime header), tr))
   \<and> (\<not> nullish args \<longrightarrow> edit_source E (opt_member args ''image_url'') tr = (Inr f, tr') \<longrightarrow>
      js_String (opt_member args ''prompt'') = Inr p \<longrightarrow>
        snd (editImage E args tr)
          = tr' @ [Fetch (post_form (base_url E @ ''/api/gemini/edit'')
               [(''prompt'', FText p), (''imageFile'', FFile f)])])
   \<and> (truthy q \<longrightarrow> truthy image_url \<longrightarrow>
      standalone_edit_source E image_url tr = (Inr (b, m), tr') \<longrightarrow>
        snd (standalone_editImage E (JObj [(''prompt'', q), (''image_url'', image_url)]) tr)
          = tr' @ [GenerateContent image_model_id (edit_contents q b m)])"
  using edit_source_remote[of image_url u E tr resp bytes] edit_source_data[of image_url u header b64 E tr]
    editImage_upload[of args E tr f tr' p] standalone_editImage_call[of q image_url E tr b m tr']
  by simp

theorem remote_image_tagged_png_witness:
  "edit_source (image_host_env ''image/jpeg'' [0xFF, 0xD8, 0xFF]) (JStr ''https://x/y.jpg'') []
     = (Inr \<lparr>file_bytes = [0xFF, 0xD8, 0xFF], file_name = ''image.png'', file_type = ''image/png''\<rparr>,
        [Fetch (get_url ''https://x/y.jpg'')])
   \<and> standalone_edit_source (image_host_env ''image/jpeg'' [0xFF, 0xD8, 0xFF]) (JStr ''https://x/y.jpg'') []
     = (Inr (JStr ''/9j/'', ''image/png''), [Fetch (get_url ''https://x/y.jpg'')])
   \<and> edit_source down_env (JStr ''data:image/jpeg;base64,/9j/'') []
     = (Inr \<lparr>file_bytes = [0xFF, 0xD8, 0xFF], file_name = ''image.png'', file_type = ''image/jpeg''\<rparr>, [])
   \<and> standalone_edit_source down_env (JStr ''data:image/jpeg;base64,/9j/'') []
     = (Inr (JStr ''/9j/'', ''image/jpeg''), [])
   \<and> snd (editImage (image_host_env ''image/jpeg'' [0xFF, 0xD8, 0xFF])
          (JObj [(''prompt'', JStr ''brighter''), (''image_url'', JStr ''https://x/y.jpg'')]) [])
     = [Fetch (get_url ''https://x/y.jpg''),
        Fetch (post_form ''http://localhost:3000/api/gemini/edit''
          [(''prompt'', FText ''brighter''),
           (''imageFile'', FFile \<lparr>file_bytes = [0xFF, 0xD8, 0xFF], file_name = ''image.png'',
                                  file_type = ''image/png''\<rparr>)])]
   \<and> snd (standalone_editImage (image_host_env ''image/jpeg'' [0xFF, 0xD8, 0xFF])
          (JObj [(''prompt'', JStr ''brighter''), (''image_url'', JStr ''https://x/y.jpg'')]) [])
     = [Fetch (get_url ''https://x/y.jpg''),
        GenerateContent image_model_id (edit_contents (JStr ''brighter'') (JStr ''/9j/'') ''image/png'')]"
proof -
  let ?E = "image_host_env ''image/jpeg'' [0xFF, 0xD8, 0xFF]"
  let ?args = "JObj [(''prompt'', JStr ''brighter''), (''image_url'', JStr ''https://x/y.jpg'')]"
  let ?png = "\<lparr>file_bytes = [0xFF, 0xD8, 0xFF], file_name = ''image.png'', file_type = ''image/png''\<rparr>"
  have str: "js_String (JStr ''https://x/y.jpg'') = Inr ''https://x/y.jpg''"
    "js_String (JStr ''data:image/jpeg;base64,/9j/'') = Inr ''data:image/jpeg;base64,/9j/''"
    "js_String (JStr ''brighter'') = Inr ''brighter''"
    by simp_all
  have remote: "\<not> starts_with ''https://x/y.jpg'' ''data:''"
    by (simp add: starts_with_def)
  have reply: "fetch_reply ?E [] (get_url ''https://x/y.jpg'')
      = Inr (bytes_reply ''image/jpeg'' [0xFF, 0xD8, 0xFF])"
    by (simp add: image_host_env_def down_env_def get_url_def)
  have okr: "ok (bytes_reply ''image/jpeg'' [0xFF, 0xD8, 0xFF])"
    "arrayBuffer (bytes_reply ''image/jpeg'' [0xFF, 0xD8, 0xFF]) = Inr [0xFF, 0xD8, 0xFF]"
    by (simp_all add: bytes_reply_def)
  have enc: "to_base64 [0xFF, 0xD8, 0xFF] = ''/9j/''"
    by (simp add: b64_char_def b64_alphabet_def)
  have dec: "from_base64 ''/9j/'' = [0xFF, 0xD8, 0xFF]"
    using base64_roundtrip[of "[0xFF, 0xD8, 0xFF]"] enc by simp
  have data: "starts_with ''data:image/jpeg;base64,/9j/'' ''data:''"
    by (simp add: starts_with_def)
  have sh: "split_header ''data:image/jpeg;base64,/9j/'' = (''data:image/jpeg;base64'', Some ''/9j/'')"
    by (simp add: split_header_def)
  have hm: "header_mime ''data:image/jpeg;base64'' = ''image/jpeg''"
    by (simp add: header_mime_def)
  have ft: "file_type_of ''image/jpeg'' = ''image/jpeg''"
    by (simp add: file_type_of_def printable_def ascii_lower_def is_upper_def)
  have nn: "\<not> nullish ?args" by (simp add: nullish_def)
  have url: "opt_member ?args ''image_url'' = JStr ''https://x/y.jpg''"
    "opt_member ?args ''prompt'' = JStr ''brighter''"
    by (simp_all add: opt_member_def)
  have base: "base_url ?E = ''http://localhost:3000''"
    by (simp add: image_host_env_def down_env_def)
  have tr: "truthy (JStr ''brighter'')" "truthy (JStr ''https://x/y.jpg'')" by simp_all
  note r = remote_image_tagged_png[of "JStr ''https://x/y.jpg''" "''https://x/y.jpg''" ?E "[]"
      "bytes_reply ''image/jpeg'' [0xFF, 0xD8, 0xFF]" "[0xFF, 0xD8, 0xFF]" _ _ ?args
      ?png "[Fetch (get_url ''https://x/y.jpg'')]" "''brighter''" "JStr ''brighter''"
      "JStr ''/9j/''" "''image/png''"]
  note d = remote_image_tagged_png[of "JStr ''data:image/jpeg;base64,/9j/''"
      "''data:image/jpeg;base64,/9j/''" down_env "[]" _ _
      "''data:image/jpeg;base64''" "''/9j/''"]
  from r str remote reply okr enc nn url base tr have
    "edit_source ?E (JStr ''https://x/y.jpg'') [] = (Inr ?png, [Fetch (get_url ''https://x/y.jpg'')])"
    "standalone_edit_source ?E (JStr ''https://x/y.jpg'') []
       = (Inr (JStr ''/9j/'', ''image/png''), [Fetch (get_url ''https://x/y.jpg'')])"
    "snd (editImage ?E ?args [])
       = [Fetch (get_url ''https://x/y.jpg''),
          Fetch (post_form ''http://localhost:3000/api/gemini/edit''
            [(''prompt'', FText ''brighter''), (''imageFile'', FFile ?png)])]"
    "snd (standalone_editImage ?E ?args [])
       = [Fetch (get_url ''https://x/y.jpg''),
          GenerateContent image_model_id (edit_contents (JStr ''brighter'') (JStr ''/9j/'') ''image/png'')]"
    by simp_all
  moreover from d str data sh hm ft dec have
    "edit_source down_env (JStr ''data:image/jpeg;base64,/9j/'') []
       = (Inr \<lparr>file_bytes = [0xFF, 0xD8, 0xFF], file_name = ''image.png'', file_type = ''image/jpeg''\<rparr>, [])"
    "standalone_edit_source down_env (JStr ''data:image/jpeg;base64,/9j/'') []
       = (Inr (JStr ''/9j/'', ''image/jpeg''), [])"
    by simp_all
  ultimately show ?thesis by simp
qed

text \<open>
  A data URL without a comma: in \<^verbatim>\<open>src/index.ts\<close> the branch throws the runtime's
  TypeError of \<^verbatim>\<open>Buffer.from(undefined, 'base64')\<close>, which is none of the errors the
  program raises itself; in \<^verbatim>\<open>src/standalone.ts\<close> the branch does not fail at all.
\<close>

theorem no_comma_counterexample:
  "decode_data_url ''data:image/png;base64'' = Inl buffer_from_undefined
   \<and> buffer_from_undefined = Exn ''TypeError''
        (''The first argument must be of type string or an instance of Buffer, ArrayBuffer, ''
         @ ''or Array or an Array-like Object. Received undefined'')
   \<and> standalone_edit_source down_env (JStr ''data:image/png;base64'') []
        = (Inr (JUndefined, ''image/png''), [])"
  by (simp add: decode_data_url_def split_header_def header_mime_def buffer_from_undefined_def
      standalone_edit_source_def starts_with_def io_defs)

text \<open>
  Claim C6, as amended. For every data URL without a comma, the data-URL branch of
  \<^verbatim>\<open>src/index.ts\<close> raises the TypeError of \<^verbatim>\<open>Buffer.from(undefined, 'base64')\<close>;
  \<^verbatim>\<open>edit_image\<close> then answers with that message behind \<^verbatim>\<open>Error: \<close> and makes no
  fetch. The branch of \<^verbatim>\<open>src/standalone.ts\<close> returns normally, with \<^verbatim>\<open>undefined\<close>
  as the base64 text and the mime type read from the whole string, and \<^verbatim>\<open>editImage\<close>
  hands both to the \<^verbatim>\<open>generateContent\<close> call, which is the only call it makes.
\<close>

theorem no_comma_type_error:
  "starts_with s ''data:'' \<and> CHR '','' \<notin> set s \<longrightarrow>
     decode_data_url s = Inl buffer_from_undefined
     \<and> callTool E ''edit_image'' (JObj [(''prompt'', p), (''image_url'', JStr s)]) tr
         = (Inr (text_result (''Error: '' @ catch_message buffer_from_undefined)), tr)
     \<and> standalone_edit_source E (JStr s) tr = (Inr (JUndefined, header_mime s), tr)
     \<and> (truthy p \<longrightarrow>
          snd (standalone_callTool E ''edit_image'' (JObj [(''prompt'', p), (''image_url'', JStr s)]) tr)
            = tr @ [GenerateContent image_model_id (edit_contents p JUndefined (header_mime s))])"
proof (intro impI conjI)
  assume a: "starts_with s ''data:'' \<and> CHR '','' \<notin> set s"
  then have sh: "split_header s = (s, None)" by (simp add: split_header_none)
  from a have ne: "truthy (JStr s)" by (auto simp: starts_with_def)
  show d: "decode_data_url s = Inl buffer_from_undefined"
    by (simp add: decode_data_url_def sh)
  show src: "standalone_edit_source E (JStr s) tr = (Inr (JUndefined, header_mime s), tr)"
    using a by (simp add: standalone_edit_source_def sh io_defs)
  have "editImage E (JObj [(''prompt'', p), (''image_url'', JStr s)]) tr = (Inl buffer_from_undefined, tr)"
    using a d
    by (simp add: editImage_def edit_source_def io_defs destructure_def nullish_def opt_member_def Let_def)
  then show "callTool E ''edit_image'' (JObj [(''prompt'', p), (''image_url'', JStr s)]) tr
         = (Inr (text_result (''Error: '' @ catch_message buffer_from_undefined)), tr)"
    by (simp add: callTool_def tool_switch_def try_catch_def io_return_def)
  assume p: "truthy p"
  have call: "snd (standalone_editImage E (JObj [(''prompt'', p), (''image_url'', JStr s)]) tr)
      = tr @ [GenerateContent image_model_id (edit_contents p JUndefined (header_mime s))]"
    using standalone_editImage_call[OF p ne src] .
  have caught: "snd (try_catch m standalone_catch tr) = snd (m tr)" if "only_errors m"
    for m :: "tool_result io"
  proof (cases "fst (m tr)")
    case (Inl x)
    with that have "is_error_instance x" by (auto simp: only_errors_def)
    then obtain n msg where "x = Exn n msg" by (cases x) simp_all
    with Inl show ?thesis by (simp add: try_catch_Inl standalone_catch_error)
  next
    case (Inr r)
    then show ?thesis by (simp add: try_catch_Inr)
  qed
  show "snd (standalone_callTool E ''edit_image'' (JObj [(''prompt'', p), (''image_url'', JStr s)]) tr)
      = tr @ [GenerateContent image_model_id (edit_contents p JUndefined (header_mime s))]"
    using call caught[OF standalone_editImage_errors]
    by (simp add: standalone_callTool_def standalone_tool_switch_def)
qed

theorem no_comma_type_error_witness:
  "decode_data_url ''data:image/png;base64'' = Inl buffer_from_undefined
   \<and> callTool down_env ''edit_image''
        (JObj [(''prompt'', JStr ''brighter''), (''image_url'', JStr ''data:image/png;base64'')]) []
       = (Inr (text_result (''Error: '' @ catch_message buffer_from_undefined)), [])
   \<and> standalone_edit_source down_env (JStr ''data:image/png;base64'') []
       = (Inr (JUndefined, ''image/png''), [])
   \<and> snd (standalone_callTool down_env ''edit_image''
        (JObj [(''prompt'', JStr ''brighter''), (''image_url'', JStr ''data:image/png;base64'')]) [])
       = [GenerateContent image_model_id (edit_contents (JStr ''brighter'') JUndefined ''image/png'')]"
proof -
  have "starts_with ''data:image/png;base64'' ''data:'' \<and> CHR '','' \<notin> set ''data:image/png;base64''"
    by (simp add: starts_with_def)
  moreover have "header_mime ''data:image/png;base64'' = ''image/png''"
    by (simp add: header_mime_def)
  ultimately show ?thesis
    using no_comma_type_error[of "''data:image/png;base64''" down_env "JStr ''brighter''" "[]"]
    by simp
qed

section \<open>The poll loop\<close>

lemma poll_differs_from_download:
  "poll_request E op \<noteq> download_request E u" "download_request E u \<noteq> poll_request E op"
  by (simp_all add: poll_request_def download_request_def post_json_def)

lemma snd_bind_pure:
  "snd (io_bind (io_lift r) f tr) = (case r of Inl e \<Rightarrow> tr | Inr x \<Rightarrow> snd (f x tr))"
  "snd (io_bind (io_await w) f tr) = (case settled w of Inl e \<Rightarrow> tr | Inr x \<Rightarrow> snd (f x tr))"
  by (simp_all add: io_bind_def io_lift_def io_await_def split: sum.splits)

lemma poll_attempt_trace:
  "snd (poll_attempt E p ar op tr) = tr @ [Sleep 10000, Fetch (poll_request E op)]
   \<or> (\<exists>u. snd (poll_attempt E p ar op tr)
         = tr @ [Sleep 10000, Fetch (poll_request E op), Fetch (download_request E u)])"
proof -
  define K :: "response \<Rightarrow> tool_result option io" where
    "K = (\<lambda>pollResponse.
       if ok pollResponse then
         io_bind (io_await (json pollResponse)) (\<lambda>pollData.
         io_bind (io_lift (member pollData ''done'')) (\<lambda>done.
           if truthy done then
             (if truthy (file_uri_of pollData) then
                io_bind (do_fetch E (download_request E (file_uri_of pollData))) (\<lambda>downloadResponse.
                  if ok downloadResponse then
                    io_bind (io_await (json downloadResponse)) (\<lambda>downloadData.
                    io_bind (io_String p) (\<lambda>prompt_text.
                    io_bind (io_lift (member downloadData ''url'')) (\<lambda>url.
                    io_bind (io_String url) (\<lambda>url_text.
                    io_bind (io_String ar) (\<lambda>ratio_text.
                      io_return (Some (text_result
                        (video_done_text prompt_text url_text ratio_text))))))))
                  else io_return None)
              else io_return None)
           else io_return None))
       else io_return None)"
  have dl: "snd (io_bind (do_fetch E (download_request E u)) (\<lambda>downloadResponse.
        if ok downloadResponse then
          io_bind (io_await (json downloadResponse)) (\<lambda>downloadData.
          io_bind (io_String p) (\<lambda>prompt_text.
          io_bind (io_lift (member downloadData ''url'')) (\<lambda>url.
          io_bind (io_String url) (\<lambda>url_text.
          io_bind (io_String ar) (\<lambda>ratio_text.
            io_return (Some (text_result (video_done_text prompt_text url_text ratio_text))))))))
        else io_return None) tr2) = tr2 @ [Fetch (download_request E u)]" for u tr2
    by (intro fetch_then_quiet quiet_if quiet_bind quiet_rules)
  have K: "snd (K resp tr2) = tr2 \<or> (\<exists>u. snd (K resp tr2) = tr2 @ [Fetch (download_request E u)])"
    for resp tr2
    unfolding K_def
    by (auto simp: snd_bind_pure dl io_return_def split: sum.splits)
  have whole: "poll_attempt E p ar op = io_bind (do_sleep 10000) (\<lambda>_. io_bind (do_fetch E (poll_request E op)) K)"
    by (simp add: poll_attempt_def K_def)
  show ?thesis
    unfolding whole
    using K[of _ "tr @ [Sleep 10000, Fetch (poll_request E op)]"]
    by (auto simp: io_bind_def do_sleep_def do_fetch_def split: sum.splits prod.splits)
qed

lemma poll_attempt_counts:
  "length (filter (is_poll E op) (snd (poll_attempt E p ar op tr))) = Suc (length (filter (is_poll E op) tr))"
  "length (filter is_sleep (snd (poll_attempt E p ar op tr))) = Suc (length (filter is_sleep tr))"
  using poll_attempt_trace[of E p ar op tr]
  by (auto simp: is_poll_def poll_differs_from_download)

lemma waited_append: "waited (xs @ ys) = waited xs + waited ys"
  by (induction xs rule: waited.induct) simp_all

lemma poll_attempt_waited:
  "waited (snd (poll_attempt E p ar op tr)) = waited tr + 10000"
  using poll_attempt_trace[of E p ar op tr] by (auto simp: waited_append)

lemma after_attempts_counts:
  "length (filter (is_poll E op) (after_attempts E p ar op n tr)) = length (filter (is_poll E op) tr) + n"
  "length (filter is_sleep (after_attempts E p ar op n tr)) = length (filter is_sleep tr) + n"
  "waited (after_attempts E p ar op n tr) = waited tr + 10000 * n"
  by (induction n) (simp_all add: poll_attempt_counts poll_attempt_waited)

lemma after_attempts_shift:
  "after_attempts E p ar op (Suc n) tr
     = after_attempts E p ar op n (snd (poll_attempt E p ar op tr))"
  by (induction n) simp_all

lemma poll_loop_step:
  "attempts < maxAttempts \<Longrightarrow> fst (poll_attempt E p ar op tr) = Inr None \<Longrightarrow>
   poll_loop E p ar op attempts tr = poll_loop E p ar op (Suc attempts) (snd (poll_attempt E p ar op tr))"
  by (cases "poll_attempt E p ar op tr") (simp add: poll_loop.simps)

lemma poll_loop_exit:
  "attempts < maxAttempts \<Longrightarrow> fst (poll_attempt E p ar op tr) = Inr (Some r) \<Longrightarrow>
   poll_loop E p ar op attempts tr = (Inr r, snd (poll_attempt E p ar op tr))"
  by (cases "poll_attempt E p ar op tr") (simp add: poll_loop.simps)

lemma poll_loop_raise:
  "attempts < maxAttempts \<Longrightarrow> fst (poll_attempt E p ar op tr) = Inl e \<Longrightarrow>
   poll_loop E p ar op attempts tr = (Inl e, snd (poll_attempt E p ar op tr))"
  by (cases "poll_attempt E p ar op tr") (simp add: poll_loop.simps)

lemma poll_loop_done:
  "\<not> attempts < maxAttempts \<Longrightarrow>
   poll_loop E p ar op attempts tr
     = (case js_String op of Inl e \<Rightarrow> (Inl e, tr)
        | Inr name \<Rightarrow> (Inr (text_result (video_timeout_text name)), tr))"
  by (simp add: poll_loop.simps)

lemma poll_loop_bound:
  "attempts \<le> maxAttempts \<Longrightarrow>
   \<exists>k. attempts + k \<le> maxAttempts \<and> snd (poll_loop E p ar op attempts tr) = after_attempts E p ar op k tr"
proof (induction "maxAttempts - attempts" arbitrary: attempts tr)
  case 0
  then have "\<not> attempts < maxAttempts" by simp
  then have "snd (poll_loop E p ar op attempts tr) = after_attempts E p ar op 0 tr"
    by (simp add: poll_loop_done split: sum.splits)
  with 0 show ?case by (intro exI[of _ 0]) simp
next
  case (Suc n)
  then have lt: "attempts < maxAttempts" by simp
  let ?tr' = "snd (poll_attempt E p ar op tr)"
  show ?case
  proof (cases "fst (poll_attempt E p ar op tr)")
    case (Inl e)
    then have "snd (poll_loop E p ar op attempts tr) = after_attempts E p ar op 1 tr"
      using lt by (simp add: poll_loop_raise)
    with lt show ?thesis by (intro exI[of _ 1]) simp
  next
    case (Inr out)
    show ?thesis
    proof (cases out)
      case (Some r)
      with Inr have "snd (poll_loop E p ar op attempts tr) = after_attempts E p ar op 1 tr"
        using lt by (simp add: poll_loop_exit)
      with lt show ?thesis by (intro exI[of _ 1]) simp
    next
      case None
      with Inr lt have step: "poll_loop E p ar op attempts tr = poll_loop E p ar op (Suc attempts) ?tr'"
        by (simp add: poll_loop_step)
      from Suc.hyps(2) have "n = maxAttempts - Suc attempts" by simp
      from Suc.hyps(1)[OF this, of ?tr'] lt obtain k where
        k: "Suc attempts + k \<le> maxAttempts"
           "snd (poll_loop E p ar op (Suc attempts) ?tr') = after_attempts E p ar op k ?tr'"
        by auto
      from k step have "snd (poll_loop E p ar op attempts tr) = after_attempts E p ar op (Suc k) tr"
        by (simp only: after_attempts_shift)
      with k(1) show ?thesis by (intro exI[of _ "Suc k"]) simp
    qed
  qed
qed

text \<open>
  After \<open>k\<close> turns that fell through, the loop is where it would be had it started
  there with \<open>k\<close> more attempts counted.
\<close>

lemma poll_loop_skips:
  "attempts + k \<le> maxAttempts \<Longrightarrow>
   (\<forall>i<k. fst (poll_attempt E p ar op (after_attempts E p ar op i tr)) = Inr None) \<Longrightarrow>
   poll_loop E p ar op attempts tr
     = poll_loop E p ar op (attempts + k) (after_attempts E p ar op k tr)"
proof (induction k arbitrary: attempts tr)
  case 0
  then show ?case by simp
next
  case (Suc k)
  let ?tr' = "snd (poll_attempt E p ar op tr)"
  from Suc.prems(2) have first: "fst (poll_attempt E p ar op tr) = Inr None"
    by (elim allE[of _ 0]) simp
  have rest: "\<forall>i<k. fst (poll_attempt E p ar op (after_attempts E p ar op i ?tr')) = Inr None"
  proof (intro allI impI)
    fix i assume "i < k"
    then have "Suc i < Suc k" by simp
    with Suc.prems(2) have "fst (poll_attempt E p ar op (after_attempts E p ar op (Suc i) tr)) = Inr None"
      by blast
    then show "fst (poll_attempt E p ar op (after_attempts E p ar op i ?tr')) = Inr None"
      by (simp only: after_attempts_shift)
  qed
  from Suc.prems(1) have "Suc attempts + k \<le> maxAttempts" "attempts < maxAttempts" by simp_all
  from Suc.IH[OF this(1) rest] poll_loop_step[OF this(2) first]
  show ?case by (simp only: after_attempts_shift add_Suc_right add_Suc)
qed

lemma poll_loop_completes:
  assumes "k < maxAttempts"
    "\<forall>i<k. fst (poll_attempt E p ar op (after_attempts E p ar op i tr)) = Inr None"
    "fst (poll_attempt E p ar op (after_attempts E p ar op k tr)) = Inr (Some r)"
  shows "poll_loop E p ar op 0 tr = (Inr r, after_attempts E p ar op (Suc k) tr)"
  using poll_loop_skips[of 0 k E p ar op tr] poll_loop_exit[OF assms(1,3)] assms(1,2)
  by simp

lemma poll_loop_raises:
  assumes "k < maxAttempts"
    "\<forall>i<k. fst (poll_attempt E p ar op (after_attempts E p ar op i tr)) = Inr None"
    "fst (poll_attempt E p ar op (after_attempts E p ar op k tr)) = Inl e"
  shows "poll_loop E p ar op 0 tr = (Inl e, after_attempts E p ar op (Suc k) tr)"
  using poll_loop_skips[of 0 k E p ar op tr] poll_loop_raise[OF assms(1,3)] assms(1,2)
  by simp

lemma poll_loop_times_out:
  assumes "\<forall>i<maxAttempts. fst (poll_attempt E p ar op (after_attempts E p ar op i tr)) = Inr None"
  shows "poll_loop E p ar op 0 tr
     = (case js_String op of
          Inl e \<Rightarrow> (Inl e, after_attempts E p ar op maxAttempts tr)
        | Inr name \<Rightarrow> (Inr (text_result (video_timeout_text name)), after_attempts E p ar op maxAttempts tr))"
  using poll_loop_skips[of 0 maxAttempts E p ar op tr] assms
    poll_loop_done[of maxAttempts E p ar op "after_attempts E p ar op maxAttempts tr"]
  by simp

text \<open>
  No attempt completes, and yet the loop does not run its 30 attempts and does not
  time out: the first status query is rejected, and the loop ends with that error after
  one attempt.
\<close>

theorem poll_loop_budget_counterexample:
  "poll_loop offline_env (JStr ''a red fox'') (JStr ''16:9'') (JStr ''op-1'') 0 []
     = (Inl (Exn ''TypeError'' ''fetch failed''),
        [Sleep 10000, Fetch (poll_request offline_env (JStr ''op-1''))])"
proof -
  have "poll_attempt offline_env (JStr ''a red fox'') (JStr ''16:9'') (JStr ''op-1'') []
     = (Inl (Exn ''TypeError'' ''fetch failed''),
        [Sleep 10000, Fetch (poll_request offline_env (JStr ''op-1''))])"
    by (simp add: poll_attempt_def io_defs settled_def offline_env_def)
  then show ?thesis
    by (simp add: poll_loop.simps[of _ _ _ _ 0] maxAttempts_def)
qed

text \<open>
  Claim C4, as amended. The poll loop of \<^verbatim>\<open>generateVideo\<close> makes at most 30 attempts.
  Every attempt waits 10000 ms and then sends one status query (and at most one download
  request after it), so after \<open>n\<close> attempts the trace holds \<open>n\<close> more waits, \<open>n\<close> more
  status queries and \<open>10000 * n\<close> more milliseconds of waiting. If the attempts before
  attempt \<open>k + 1 \<le> 30\<close> fall through and that attempt completes, the loop returns its
  result after exactly \<open>k + 1\<close> attempts; if that attempt throws instead, the loop ends
  with what it threw, after exactly \<open>k + 1\<close> attempts; if all 30 attempts fall through,
  the loop ends after exactly 30, with the timed-out text that carries the operation
  name, or with a TypeError when the operation name cannot be converted to a string.
\<close>

theorem poll_loop_budget:
  "(\<exists>k\<le>30. snd (poll_loop E p ar op 0 tr) = after_attempts E p ar op k tr)
   \<and> length (filter (is_poll E op) (after_attempts E p ar op n tr))
       = length (filter (is_poll E op) tr) + n
   \<and> length (filter is_sleep (after_attempts E p ar op n tr)) = length (filter is_sleep tr) + n
   \<and> waited (after_attempts E p ar op n tr) = waited tr + 10000 * n
   \<and> (snd (poll_attempt E p ar op tr) = tr @ [Sleep 10000, Fetch (poll_request E op)]
      \<or> (\<exists>u. snd (poll_attempt E p ar op tr)
            = tr @ [Sleep 10000, Fetch (poll_request E op), Fetch (download_request E u)]))
   \<and> (k < 30 \<longrightarrow>
        (\<forall>i<k. fst (poll_attempt E p ar op (after_attempts E p ar op i tr)) = Inr None) \<longrightarrow>
        fst (poll_attempt E p ar op (after_attempts E p ar op k tr)) = Inr (Some r) \<longrightarrow>
        poll_loop E p ar op 0 tr = (Inr r, after_attempts E p ar op (Suc k) tr))
   \<and> (k < 30 \<longrightarrow>
        (\<forall>i<k. fst (poll_attempt E p ar op (after_attempts E p ar op i tr)) = Inr None) \<longrightarrow>
        fst (poll_attempt E p ar op (after_attempts E p ar op k tr)) = Inl e \<longrightarrow>
        poll_loop E p ar op 0 tr = (Inl e, after_attempts E p ar op (Suc k) tr))
   \<and> ((\<forall>i<30. fst (poll_attempt E p ar op (after_attempts E p ar op i tr)) = Inr None) \<longrightarrow>
        js_String op = Inr name \<longrightarrow>
        poll_loop E p ar op 0 tr
          = (Inr (text_result (video_timeout_text name)), after_attempts E p ar op 30 tr))
   \<and> ((\<forall>i<30. fst (poll_attempt E p ar op (after_attempts E p ar op i tr)) = Inr None) \<longrightarrow>
        js_String op = Inl e \<longrightarrow>
        poll_loop E p ar op 0 tr = (Inl e, after_attempts E p ar op 30 tr))"
proof -
  have m: "maxAttempts = 30" by (simp add: maxAttempts_def)
  have bound: "\<exists>k\<le>30. snd (poll_loop E p ar op 0 tr) = after_attempts E p ar op k tr"
    using poll_loop_bound[of 0 E p ar op tr] by (simp add: m)
  have complete: "k < 30 \<longrightarrow>
        (\<forall>i<k. fst (poll_attempt E p ar op (after_attempts E p ar op i tr)) = Inr None) \<longrightarrow>
        fst (poll_attempt E p ar op (after_attempts E p ar op k tr)) = Inr (Some r) \<longrightarrow>
        poll_loop E p ar op 0 tr = (Inr r, after_attempts E p ar op (Suc k) tr)"
    using poll_loop_completes[of k E p ar op tr r] by (simp add: m)
  have raises: "k < 30 \<longrightarrow>
        (\<forall>i<k. fst (poll_attempt E p ar op (after_attempts E p ar op i tr)) = Inr None) \<longrightarrow>
        fst (poll_attempt E p ar op (after_attempts E p ar op k tr)) = Inl e \<longrightarrow>
        poll_loop E p ar op 0 tr = (Inl e, after_attempts E p ar op (Suc k) tr)"
    using poll_loop_raises[of k E p ar op tr e] by (simp add: m)
  have timeout: "(\<forall>i<30. fst (poll_attempt E p ar op (after_attempts E p ar op i tr)) = Inr None) \<longrightarrow>
        js_String op = Inr name \<longrightarrow>
        poll_loop E p ar op 0 tr
          = (Inr (text_result (video_timeout_text name)), after_attempts E p ar op 30 tr)"
    using poll_loop_times_out[of E p ar op tr] by (simp add: m)
  have unnamed: "(\<forall>i<30. fst (poll_attempt E p ar op (after_attempts E p ar op i tr)) = Inr None) \<longrightarrow>
        js_String op = Inl e \<longrightarrow>
        poll_loop E p ar op 0 tr = (Inl e, after_attempts E p ar op 30 tr)"
    using poll_loop_times_out[of E p ar op tr] by (simp add: m)
  show ?thesis
    by (intro conjI bound complete raises timeout unnamed after_attempts_counts poll_attempt_trace)
qed

lemma video_env_poll_count:
  "length (filter (\<lambda>ev. ev = Fetch (poll_request (video_env k) op)) (tr @ [Sleep 10000]))
     = length (filter (is_poll (video_env k) op) tr)"
proof -
  have "is_poll (video_env k) op = (\<lambda>ev. ev = Fetch (poll_request (video_env k) op))"
    by (simp add: is_poll_def fun_eq_iff)
  then show ?thesis by simp
qed

lemma video_env_base: "base_url (video_env k) = ''http://localhost:3000''"
  by (simp add: video_env_def down_env_def)

lemma video_env_fetch:
  "fetch_reply (video_env k) tr req =
     (if req_url req = ''http://localhost:3000/api/veo/generate''
       then Inr (json_reply (JObj [(''name'', JStr ''op-1'')]))
       else if req_url req = ''http://localhost:3000/api/veo/operation''
       then (if 0 < k \<and> k \<le> Suc (length (filter (\<lambda>ev. ev = Fetch req) tr))
             then Inr (json_reply (JObj [(''done'', JBool True), (''uris'', JArr [JStr ''files/v1''])]))
             else Inr (json_reply (JObj [(''done'', JBool False)])))
       else if req_url req = ''http://localhost:3000/api/veo/download''
       then Inr (json_reply (JObj [(''url'', JStr ''http://localhost:3000/media/v1.mp4'')]))
       else Inr unavailable)"
  by (simp add: video_env_def)

lemma video_env_poll_reply:
  "fetch_reply (video_env k) (tr @ [Sleep 10000]) (poll_request (video_env k) op)
     = (if 0 < k \<and> k \<le> Suc (length (filter (is_poll (video_env k) op) tr))
        then Inr (json_reply (JObj [(''done'', JBool True), (''uris'', JArr [JStr ''files/v1''])]))
        else Inr (json_reply (JObj [(''done'', JBool False)])))"
proof -
  have u: "req_url (poll_request (video_env k) op) = ''http://localhost:3000/api/veo/operation''"
    by (simp add: poll_request_def post_json_def video_env_base)
  show ?thesis
    unfolding video_env_fetch u video_env_poll_count by simp
qed

lemma video_env_download_reply:
  "fetch_reply (video_env k) tr (download_request (video_env k) u)
     = Inr (json_reply (JObj [(''url'', JStr ''http://localhost:3000/media/v1.mp4'')]))"
proof -
  have u: "req_url (download_request (video_env k) u) = ''http://localhost:3000/api/veo/download''"
    by (simp add: download_request_def post_json_def video_env_base)
  show ?thesis
    unfolding video_env_fetch u by simp
qed

lemma video_env_pending:
  "\<not> (0 < k \<and> k \<le> Suc (length (filter (is_poll (video_env k) op) tr))) \<Longrightarrow>
   fst (poll_attempt (video_env k) p ar op tr) = Inr None"
proof -
  assume "\<not> (0 < k \<and> k \<le> Suc (length (filter (is_poll (video_env k) op) tr)))"
  then have "fetch_reply (video_env k) (tr @ [Sleep 10000]) (poll_request (video_env k) op)
     = Inr (json_reply (JObj [(''done'', JBool False)]))"
    by (simp only: video_env_poll_reply if_False)
  then show ?thesis
    by (simp add: poll_attempt_def io_defs settled_def json_reply_def member_def nullish_def opt_member_def)
qed

lemma video_env_done:
  "0 < k \<and> k \<le> Suc (length (filter (is_poll (video_env k) op) tr)) \<Longrightarrow>
   js_String p = Inr prompt_text \<Longrightarrow> js_String ar = Inr ratio_text \<Longrightarrow>
   fst (poll_attempt (video_env k) p ar op tr)
     = Inr (Some (text_result
         (video_done_text prompt_text ''http://localhost:3000/media/v1.mp4'' ratio_text)))"
proof -
  assume "0 < k \<and> k \<le> Suc (length (filter (is_poll (video_env k) op) tr))"
    and s: "js_String p = Inr prompt_text" "js_String ar = Inr ratio_text"
  then have "fetch_reply (video_env k) (tr @ [Sleep 10000]) (poll_request (video_env k) op)
     = Inr (json_reply (JObj [(''done'', JBool True), (''uris'', JArr [JStr ''files/v1''])]))"
    by (simp add: video_env_poll_reply)
  then show ?thesis
    using s
    by (simp add: poll_attempt_def io_defs settled_def video_env_download_reply json_reply_def
        member_def nullish_def opt_member_def file_uri_of_def js_or_def opt_first_def)
qed

theorem poll_loop_budget_witness:
  "poll_loop (video_env 30) (JStr ''a red fox'') (JStr ''16:9'') (JStr ''op-1'') 0 []
     = (Inr (text_result (video_done_text ''a red fox''
               ''http://localhost:3000/media/v1.mp4'' ''16:9'')),
        after_attempts (video_env 30) (JStr ''a red fox'') (JStr ''16:9'') (JStr ''op-1'') 30 [])
   \<and> length (filter (is_poll (video_env 30) (JStr ''op-1''))
        (after_attempts (video_env 30) (JStr ''a red fox'') (JStr ''16:9'') (JStr ''op-1'') 30 [])) = 30
   \<and> poll_loop (video_env 0) (JStr ''a red fox'') (JStr ''16:9'') (JStr ''op-1'') 0 []
     = (Inr (text_result (video_timeout_text ''op-1'')),
        after_attempts (video_env 0) (JStr ''a red fox'') (JStr ''16:9'') (JStr ''op-1'') 30 [])
   \<and> length (filter (is_poll (video_env 0) (JStr ''op-1''))
        (after_attempts (video_env 0) (JStr ''a red fox'') (JStr ''16:9'') (JStr ''op-1'') 30 [])) = 30
   \<and> waited (after_attempts (video_env 0) (JStr ''a red fox'') (JStr ''16:9'') (JStr ''op-1'') 30 [])
     = 300000
   \<and> poll_loop offline_env (JStr ''a red fox'') (JStr ''16:9'') (JStr ''op-1'') 0 []
     = (Inl (Exn ''TypeError'' ''fetch failed''),
        after_attempts offline_env (JStr ''a red fox'') (JStr ''16:9'') (JStr ''op-1'') 1 [])"
proof -
  let ?p = "JStr ''a red fox''" and ?ar = "JStr ''16:9''" and ?op = "JStr ''op-1''"
  let ?after = "\<lambda>k n. after_attempts (video_env k) ?p ?ar ?op n []"
  have count: "length (filter (is_poll (video_env k) ?op) (?after k n)) = n"
    "waited (?after k n) = 10000 * n" for k n
    using poll_loop_budget[of "video_env k" ?p ?ar ?op "[]" n] by simp_all
  have pending30: "\<forall>i<29. fst (poll_attempt (video_env 30) ?p ?ar ?op (?after 30 i)) = Inr None"
    by (intro allI impI video_env_pending) (simp add: count)
  have done30: "fst (poll_attempt (video_env 30) ?p ?ar ?op (?after 30 29))
     = Inr (Some (text_result (video_done_text ''a red fox'' ''http://localhost:3000/media/v1.mp4'' ''16:9'')))"
    by (intro video_env_done) (simp_all add: count)
  have pending0: "\<forall>i<30. fst (poll_attempt (video_env 0) ?p ?ar ?op (?after 0 i)) = Inr None"
    by (intro allI impI video_env_pending) simp
  have rejected: "fst (poll_attempt offline_env ?p ?ar ?op (after_attempts offline_env ?p ?ar ?op 0 []))
     = Inl (Exn ''TypeError'' ''fetch failed'')"
    by (simp add: poll_attempt_def io_defs settled_def offline_env_def)
  have a: "poll_loop (video_env 30) ?p ?ar ?op 0 []
     = (Inr (text_result (video_done_text ''a red fox'' ''http://localhost:3000/media/v1.mp4'' ''16:9'')),
        ?after 30 30)"
    using poll_loop_budget[of "video_env 30" ?p ?ar ?op "[]" 0 29
        "text_result (video_done_text ''a red fox'' ''http://localhost:3000/media/v1.mp4'' ''16:9'')"]
      pending30 done30 by simp
  have b: "poll_loop (video_env 0) ?p ?ar ?op 0 []
     = (Inr (text_result (video_timeout_text ''op-1'')), ?after 0 30)"
    using poll_loop_budget[of "video_env 0" ?p ?ar ?op "[]" 0 0 _ _ "''op-1''"] pending0 by simp
  have c: "poll_loop offline_env ?p ?ar ?op 0 []
     = (Inl (Exn ''TypeError'' ''fetch failed''), after_attempts offline_env ?p ?ar ?op 1 [])"
    using poll_loop_budget[of offline_env ?p ?ar ?op "[]" 0 0 _ "Exn ''TypeError'' ''fetch failed''"]
      rejected by simp
  show ?thesis using a b c count[of 30 30] count[of 0 30] by simp
qed

lemma member_truthy: "truthy (opt_member v k) \<Longrightarrow> member v k = Inr (opt_member v k)"
  by (cases v) (simp_all add: member_def nullish_def opt_member_def)

lemma video_form_quiet: "quiet (video_form prompt image_url aspect_ratio)"
  unfolding video_form_def Let_def
  by (intro quiet_bind quiet_if quiet_rules) (simp_all add: quiet_rules split: prod.splits)

text \<open>
  \<^verbatim>\<open>generateVideo\<close> enters the loop with no attempt made, once the form is built and
  the backend has answered the start request with an operation name.
\<close>

lemma generateVideo_enters_loop:
  assumes "\<not> nullish args"
    "fst (video_form (opt_member args ''prompt'') (opt_member args ''image_url'')
           (field_or args ''aspect_ratio'' (JStr ''16:9'')) tr) = Inr formData"
    "fetch_reply E tr (post_form (base_url E @ ''/api/veo/generate'') formData) = Inr resp"
    "ok resp" "json resp = Inr generateData" "truthy (opt_member generateData ''name'')"
  shows "generateVideo E args tr
     = poll_loop E (opt_member args ''prompt'') (field_or args ''aspect_ratio'' (JStr ''16:9''))
         (opt_member generateData ''name'') 0
         (tr @ [Fetch (post_form (base_url E @ ''/api/veo/generate'') formData)])"
proof -
  let ?form = "video_form (opt_member args ''prompt'') (opt_member args ''image_url'')
           (field_or args ''aspect_ratio'' (JStr ''16:9''))"
  have "snd (?form tr) = tr" using video_form_quiet by (simp add: quiet_def)
  with assms(2) have form: "?form tr = (Inr formData, tr)" by (cases "?form tr") simp
  show ?thesis
    unfolding generateVideo_def Let_def destructure_obj[OF assms(1)] io_bind_lift_Inr
    apply (subst io_bind_def)
    apply (simp only: form prod.case sum.case)
    apply (simp add: io_defs settled_def assms(3-6) member_truthy)
    done
qed





end
